theory Spec2Isabelle
  imports Complex_Main
begin

section \<open>Go strings\<close>

text \<open>
  A Go string is a sequence of bytes and is modelled as \<^typ>\<open>string\<close>; text in it is UTF-8.
  The helpers of package \<open>strings\<close> that the gateway calls are written out here.

  \<open>strings.TrimSpace\<close> removes the leading and the trailing runes for which
  \<open>unicode.IsSpace\<close> holds: U+0009 to U+000D, U+0020, U+0085, U+00A0, U+1680, U+2000 to
  U+200A, U+2028, U+2029, U+202F, U+205F and U+3000. Runes are decoded from the front and
  from the back as \<open>utf8.DecodeRuneInString\<close> and \<open>utf8.DecodeLastRuneInString\<close> do; a
  byte sequence that is not the UTF-8 encoding of one of these runes stops the trimming.
  \<open>isSpace1\<close>, \<open>isSpace2\<close> and \<open>isSpace3\<close> recognise the encodings of one, two and three
  bytes.
\<close>

definition isSpace1 :: "char \<Rightarrow> bool" where
  "isSpace1 a = (a = CHR 0x09 \<or> a = CHR 0x0A \<or> a = CHR 0x0B \<or> a = CHR 0x0C
                 \<or> a = CHR 0x0D \<or> a = CHR 0x20)"

definition isSpace2 :: "char \<Rightarrow> char \<Rightarrow> bool" where
  "isSpace2 a b = (a = CHR 0xC2 \<and> (b = CHR 0x85 \<or> b = CHR 0xA0))"

definition isSpace3 :: "char \<Rightarrow> char \<Rightarrow> char \<Rightarrow> bool" where
  "isSpace3 a b c =
     ((a = CHR 0xE1 \<and> b = CHR 0x9A \<and> c = CHR 0x80)
      \<or> (a = CHR 0xE2 \<and> b = CHR 0x80
          \<and> (c = CHR 0x80 \<or> c = CHR 0x81 \<or> c = CHR 0x82 \<or> c = CHR 0x83 \<or> c = CHR 0x84
              \<or> c = CHR 0x85 \<or> c = CHR 0x86 \<or> c = CHR 0x87 \<or> c = CHR 0x88 \<or> c = CHR 0x89
              \<or> c = CHR 0x8A \<or> c = CHR 0xA8 \<or> c = CHR 0xA9 \<or> c = CHR 0xAF))
      \<or> (a = CHR 0xE2 \<and> b = CHR 0x81 \<and> c = CHR 0x9F)
      \<or> (a = CHR 0xE3 \<and> b = CHR 0x80 \<and> c = CHR 0x80))"

fun trimLeft :: "string \<Rightarrow> string" where
  "trimLeft (a # b # c # s) =
     (if isSpace1 a then trimLeft (b # c # s)
      else if isSpace2 a b then trimLeft (c # s)
      else if isSpace3 a b c then trimLeft s
      else a # b # c # s)"
| "trimLeft [a, b] = (if isSpace1 a then trimLeft [b] else if isSpace2 a b then [] else [a, b])"
| "trimLeft [a] = (if isSpace1 a then [] else [a])"
| "trimLeft [] = []"

text \<open>\<open>trimRight\<close> works on the reversed string: its first byte is the last byte of the text.\<close>

fun trimRight :: "string \<Rightarrow> string" where
  "trimRight (c # b # a # s) =
     (if isSpace1 c then trimRight (b # a # s)
      else if isSpace2 b c then trimRight (a # s)
      else if isSpace3 a b c then trimRight s
      else c # b # a # s)"
| "trimRight [c, b] = (if isSpace1 c then trimRight [b] else if isSpace2 b c then [] else [c, b])"
| "trimRight [c] = (if isSpace1 c then [] else [c])"
| "trimRight [] = []"

definition TrimSpace :: "string \<Rightarrow> string" where
  "TrimSpace s = rev (trimRight (rev (trimLeft s)))"

definition HasPrefix :: "string \<Rightarrow> string \<Rightarrow> bool" where
  "HasPrefix s p = (take (length p) s = p)"

definition HasSuffix :: "string \<Rightarrow> string \<Rightarrow> bool" where
  "HasSuffix s x = (length x \<le> length s \<and> drop (length s - length x) s = x)"

definition TrimSuffix :: "string \<Rightarrow> string \<Rightarrow> string" where
  "TrimSuffix s x = (if HasSuffix s x then take (length s - length x) s else s)"

text \<open>\<open>strings.Trim\<close> for a cutset of ASCII bytes (the gateway's only cutset is \<open>"/"\<close>).\<close>

definition Trim :: "string \<Rightarrow> string \<Rightarrow> string" where
  "Trim s cutset =
     rev (dropWhile (\<lambda>c. c \<in> set cutset) (rev (dropWhile (\<lambda>c. c \<in> set cutset) s)))"

fun Contains :: "string \<Rightarrow> string \<Rightarrow> bool" where
  "Contains [] sub = (sub = [])"
| "Contains (c # cs) sub = (HasPrefix (c # cs) sub \<or> Contains cs sub)"

section \<open>Numbers of type float64\<close>

text \<open>
  A \<open>float64\<close> is a finite value, which is a rational number, an infinity or a NaN.
  Comparisons with a constant are exact. A product is the exact product rounded to the
  nearest \<open>float64\<close>, and the conversion \<open>int64(v)\<close> truncates towards zero when the
  truncated value is within the range of \<open>int64\<close>; the rounding, and the result of a
  conversion outside that range (which the language leaves to the implementation), are not
  written out here and belong to the library below.
\<close>

datatype float64 = Finite rat | PosInf | NegInf | NaN

definition floatPositive :: "float64 \<Rightarrow> bool" where
  "floatPositive v = (case v of Finite r \<Rightarrow> 0 < r | PosInf \<Rightarrow> True | _ \<Rightarrow> False)"

definition floatGe :: "float64 \<Rightarrow> int \<Rightarrow> bool" where
  "floatGe v c = (case v of Finite r \<Rightarrow> of_int c \<le> r | PosInf \<Rightarrow> True | _ \<Rightarrow> False)"

definition floatNonZero :: "float64 \<Rightarrow> bool" where
  "floatNonZero v = (case v of Finite r \<Rightarrow> r \<noteq> 0 | _ \<Rightarrow> True)"

definition truncRat :: "rat \<Rightarrow> int" where
  "truncRat r = (if 0 \<le> r then \<lfloor>r\<rfloor> else \<lceil>r\<rceil>)"

section \<open>The standard library\<close>

text \<open>
  What the Go library and runtime do and is not written out in this theory is a parameter
  \<open>L\<close> of the functions that depend on it:
  \<^item> \<open>mapToLower s\<close> is \<open>strings.Map(unicode.ToLower, s)\<close>, which \<open>strings.ToLower\<close> returns
    for a string with a byte outside ASCII;
  \<^item> \<open>foldEqual s t\<close> is \<open>strings.EqualFold(s, t)\<close> for strings that are not both ASCII;
  \<^item> \<open>ParseFloat s\<close> is \<open>strconv.ParseFloat(s, 64)\<close>, \<open>None\<close> when it returns an error;
  \<^item> \<open>roundFloat r\<close> is the \<open>float64\<close> nearest to the real number \<open>r\<close>;
  \<^item> \<open>int64OutOfRange v\<close> is \<open>int64(v)\<close> for a \<open>v\<close> that is a NaN, an infinity or a finite
    value whose truncation is outside the range of \<open>int64\<close>.
\<close>

record stdlib =
  mapToLower :: "string \<Rightarrow> string"
  foldEqual :: "string \<Rightarrow> string \<Rightarrow> bool"
  ParseFloat :: "string \<Rightarrow> float64 option"
  roundFloat :: "rat \<Rightarrow> float64"
  int64OutOfRange :: "float64 \<Rightarrow> int"

definition isASCII :: "string \<Rightarrow> bool" where
  "isASCII s = list_all (\<lambda>c. \<not> digit7 c) s"

definition toLowerChar :: "char \<Rightarrow> char" where
  "toLowerChar c =
     (case map_of (zip ''ABCDEFGHIJKLMNOPQRSTUVWXYZ'' ''abcdefghijklmnopqrstuvwxyz'') c of
        Some l \<Rightarrow> l
      | None \<Rightarrow> c)"

text \<open>
  \<open>strings.ToLower\<close> and \<open>strings.EqualFold\<close>: on ASCII strings the letters \<open>A\<close> to \<open>Z\<close> are
  mapped to \<open>a\<close> to \<open>z\<close>, as the fast paths of both functions do (\<open>digit7\<close> is the top bit of
  a byte: it is clear exactly for the bytes below \<open>utf8.RuneSelf\<close>).
\<close>

definition ToLower :: "stdlib \<Rightarrow> string \<Rightarrow> string" where
  "ToLower L s = (if isASCII s then map toLowerChar s else mapToLower L s)"

definition EqualFold :: "stdlib \<Rightarrow> string \<Rightarrow> string \<Rightarrow> bool" where
  "EqualFold L s t =
     (if isASCII s \<and> isASCII t then map toLowerChar s = map toLowerChar t else foldEqual L s t)"

definition floatToInt64 :: "stdlib \<Rightarrow> float64 \<Rightarrow> int" where
  "floatToInt64 L v =
     (case v of
        Finite r \<Rightarrow>
          if - (2 ^ 63) \<le> truncRat r \<and> truncRat r \<le> 2 ^ 63 - 1 then truncRat r
          else int64OutOfRange L v
      | _ \<Rightarrow> int64OutOfRange L v)"

definition floatTimes :: "stdlib \<Rightarrow> float64 \<Rightarrow> int \<Rightarrow> float64" where
  "floatTimes L v c =
     (case v of
        Finite r \<Rightarrow> roundFloat L (r * of_int c)
      | PosInf \<Rightarrow> if 0 < c then PosInf else if c < 0 then NegInf else NaN
      | NegInf \<Rightarrow> if 0 < c then NegInf else if c < 0 then PosInf else NaN
      | NaN \<Rightarrow> NaN)"

section \<open>Time\<close>

text \<open>
  A \<open>time.Time\<close> is an instant, here the number of nanoseconds since the Unix epoch;
  a \<open>time.Duration\<close> is a number of nanoseconds. \<open>t.After(u)\<close> is \<open>u < t\<close> and
  \<open>t.Before(u)\<close> is \<open>t < u\<close>. Every \<open>time.Now()\<close> of the source is an explicit
  argument \<open>now\<close>.
\<close>

type_synonym time = int

definition Second :: int where
  "Second = 1000000000"

definition Minute :: int where
  "Minute = 60 * Second"

text \<open>
  Arithmetic on \<open>int64\<close> wraps around: \<open>wrap64\<close>. \<open>time.Unix(sec, 0)\<close> stores
  \<open>sec + unixToInternal\<close>, an \<open>int64\<close> count of seconds since the year 1, and that sum wraps.
\<close>

definition wrap64 :: "int \<Rightarrow> int" where
  "wrap64 x = (x + 2 ^ 63) mod 2 ^ 64 - 2 ^ 63"

definition unixToInternal :: int where
  "unixToInternal = 62135596800"

definition timeUnix :: "int \<Rightarrow> time" where
  "timeUnix sec = (wrap64 (sec + unixToInternal) - unixToInternal) * Second"

definition zeroTime :: time where
  "zeroTime = - 62135596800 * Second"

section \<open>Reverse-proxy ban state\<close>

definition reverseProxyBanTTL :: int where
  "reverseProxyBanTTL = 5 * Minute"

text \<open>
  The process-wide \<open>reverseProxyBanState.bannedTill\<close> is a map from proxy id to expiry; the
  functions take it and return it updated. The mutex is not modelled: each function is one
  critical section.
\<close>

type_synonym banState = "string \<rightharpoonup> time"

definition banReverseProxyTemporarily ::
    "time \<Rightarrow> string \<Rightarrow> string \<Rightarrow> int \<Rightarrow> string \<Rightarrow> banState \<Rightarrow> banState" where
  "banReverseProxyTemporarily now proxyID provider statusCode errMsg bannedTill =
     (let id = TrimSpace proxyID in
      if id = [] then bannedTill
      else
        let until = now + reverseProxyBanTTL;
            until = (case bannedTill id of
                       Some current \<Rightarrow> if until < current then current else until
                     | None \<Rightarrow> until)
        in bannedTill(id \<mapsto> until))"

definition isReverseProxyTemporarilyBanned :: "time \<Rightarrow> string \<Rightarrow> banState \<Rightarrow> bool \<times> banState" where
  "isReverseProxyTemporarilyBanned now proxyID bannedTill =
     (let id = TrimSpace proxyID in
      if id = [] then (False, bannedTill)
      else
        (case bannedTill id of
           None \<Rightarrow> (False, bannedTill)
         | Some until \<Rightarrow>
             if until < now then (False, bannedTill(id := None)) else (True, bannedTill)))"

text \<open>A ban event is one call of \<open>banReverseProxyTemporarily\<close>: the clock reading and the arguments.\<close>

datatype banEvent = BanEvent time string string int string

fun applyBanEvent :: "banEvent \<Rightarrow> banState \<Rightarrow> banState" where
  "applyBanEvent (BanEvent now proxyID provider statusCode errMsg) bannedTill =
     banReverseProxyTemporarily now proxyID provider statusCode errMsg bannedTill"

fun applyBanEvents :: "banEvent list \<Rightarrow> banState \<Rightarrow> banState" where
  "applyBanEvents [] bannedTill = bannedTill"
| "applyBanEvents (e # es) bannedTill = applyBanEvents es (applyBanEvent e bannedTill)"

section \<open>Values of Go maps and of type any\<close>

text \<open>
  A Go map is an association list read with \<^const>\<open>map_of\<close>; a nil map and an empty map are
  both \<open>[]\<close> (the source only reads them, and reading either gives the zero value).
  \<open>lookupStr m k\<close> is the Go expression \<open>m[k]\<close> for a \<open>map[string]string\<close>.
\<close>

definition lookupStr :: "(string \<times> string) list \<Rightarrow> string \<Rightarrow> string" where
  "lookupStr m k = (case map_of m k of Some v \<Rightarrow> v | None \<Rightarrow> [])"

datatype any =
    ANil
  | AString string
  | ABytes string
  | AMapString "(string \<times> string) list"
  | AMapAny "(string \<times> any) list"
  | AOther

section \<open>Credentials and configuration\<close>

text \<open>
  The fields of \<open>Auth\<close> and of \<open>config.Config\<close> that the functions below read. A pointer that
  may be nil is an \<open>option\<close>.
\<close>

record Auth =
  ID :: string
  Index :: string
  FileName :: string
  Attributes :: "(string \<times> string) list"
  Metadata :: "(string \<times> any) list"

record ProxyRouting =
  Codex :: string
  Antigravity :: string
  Claude :: string
  Gemini :: string
  GeminiCLI :: string
  Vertex :: string
  AIStudio :: string
  Qwen :: string
  IFlow :: string

record ReverseProxy =
  rpID :: string
  rpName :: string
  BaseURL :: string
  Enabled :: bool
  Headers :: "(string \<times> string) list"

record Config =
  APIKeyAuth :: "(string \<times> string list) list"
  ProxyRouting :: ProxyRouting
  ProxyRoutingAuth :: "(string \<times> string) list"
  ReverseProxies :: "ReverseProxy list"
  ReverseProxyWorkerURL :: string


section \<open>Access resolver (api\_key\_permissions.go)\<close>



definition authIndexForMatch :: "(string \<Rightarrow> string) \<Rightarrow> Auth \<Rightarrow> string" where
  "authIndexForMatch h auth =
     (let idx = TrimSpace (Index auth) in
      if idx \<noteq> [] then idx
      else
        let seed = TrimSpace (FileName auth);
            seed = (if seed \<noteq> [] then ''file:'' @ seed
                    else
                      (let apiKey = TrimSpace (lookupStr (Attributes auth) ''api_key'') in
                       if apiKey \<noteq> [] then ''api_key:'' @ apiKey else seed))
        in
          if seed = [] then
            (let id = TrimSpace (ID auth) in if id \<noteq> [] then h (''id:'' @ id) else [])
          else h seed)"




section \<open>Reverse-proxy routing\<close>

text \<open>
  \<open>url.Parse\<close> of package \<open>net/url\<close> is a parameter \<open>urlParse\<close>: \<open>None\<close> when it returns an
  error, otherwise the fields of the parsed URL that are read, \<open>Hostname\<close> being the value of
  the method \<open>Hostname()\<close>. The method \<open>EnsureIndex\<close> of \<open>Auth\<close> is declared outside the files
  at hand and is a parameter \<open>ensureIndex\<close>.
\<close>

record parsedURL =
  Host :: string
  Hostname :: string
  Path :: string
  RawQuery :: string

record reverseProxyResolution =
  URL :: string
  ProxyID :: string
  Proxied :: bool

definition resolveProxyIDForProvider :: "Config option \<Rightarrow> string \<Rightarrow> string" where
  "resolveProxyIDForProvider cfg provider =
     (case cfg of
        None \<Rightarrow> []
      | Some c \<Rightarrow>
          if provider = ''codex'' then Codex (ProxyRouting c)
          else if provider = ''antigravity'' then Antigravity (ProxyRouting c)
          else if provider = ''claude'' then Claude (ProxyRouting c)
          else if provider = ''gemini'' then Gemini (ProxyRouting c)
          else if provider = ''gemini-cli'' then GeminiCLI (ProxyRouting c)
          else if provider = ''vertex'' then Vertex (ProxyRouting c)
          else if provider = ''aistudio'' then AIStudio (ProxyRouting c)
          else if provider = ''qwen'' then Qwen (ProxyRouting c)
          else if provider = ''iflow'' then IFlow (ProxyRouting c)
          else [])"

definition resolveProxyIDForAuth :: "(Auth \<Rightarrow> string) \<Rightarrow> Config option \<Rightarrow> Auth option \<Rightarrow> string" where
  "resolveProxyIDForAuth ensureIndex cfg auth =
     (case cfg of
        None \<Rightarrow> []
      | Some c \<Rightarrow>
          (case auth of
             None \<Rightarrow> []
           | Some a \<Rightarrow>
               if ProxyRoutingAuth c = [] then []
               else
                 let id = TrimSpace (ID a);
                     byID = (if id \<noteq> [] then TrimSpace (lookupStr (ProxyRoutingAuth c) id) else [])
                 in
                   if byID \<noteq> [] then byID
                   else
                     let idx = TrimSpace (ensureIndex a);
                         byIdx = (if idx \<noteq> [] then TrimSpace (lookupStr (ProxyRoutingAuth c) idx)
                                  else [])
                     in
                       if byIdx \<noteq> [] then byIdx
                       else
                         let name = TrimSpace (FileName a);
                             byName = (if name \<noteq> []
                                       then TrimSpace (lookupStr (ProxyRoutingAuth c) name) else [])
                         in if byName \<noteq> [] then byName else []))"

definition findReverseProxyByID :: "Config option \<Rightarrow> string \<Rightarrow> ReverseProxy option" where
  "findReverseProxyByID cfg proxyID =
     (case cfg of
        None \<Rightarrow> None
      | Some c \<Rightarrow>
          if proxyID = [] \<or> ReverseProxies c = [] then None
          else find (\<lambda>p. rpID p = proxyID \<and> Enabled p) (ReverseProxies c))"

text \<open>The empty string is the source's "no bridge URL".\<close>

definition buildReverseProxyWorkerURL ::
    "stdlib \<Rightarrow> (string \<Rightarrow> parsedURL option) \<Rightarrow> Config option \<Rightarrow> string \<Rightarrow> string \<Rightarrow> string \<Rightarrow>
     string \<Rightarrow> string" where
  "buildReverseProxyWorkerURL L urlParse cfg proxyBaseURL prefix path rawQuery =
     (case cfg of
        None \<Rightarrow> []
      | Some c \<Rightarrow>
          (let workerBase = TrimSpace (ReverseProxyWorkerURL c) in
           if workerBase = [] then []
           else
             (case urlParse workerBase of
                None \<Rightarrow> []
              | Some workerParsed \<Rightarrow>
                  if Host workerParsed = [] then []
                  else
                    (case urlParse (TrimSpace proxyBaseURL) of
                       None \<Rightarrow> []
                     | Some upstreamParsed \<Rightarrow>
                         if Host upstreamParsed = [] then []
                         else
                           let upstreamHost = TrimSpace (Hostname upstreamParsed) in
                           if upstreamHost = [] then []
                           else if EqualFold L (TrimSpace (Hostname workerParsed)) upstreamHost then []
                           else
                             let normalizedPrefix = ''/'' @ Trim (TrimSpace prefix) ''/'';
                                 normalizedPath = (if path = [] then ''/'' else path);
                                 normalizedPath = (if \<not> HasPrefix normalizedPath ''/''
                                                   then ''/'' @ normalizedPath else normalizedPath);
                                 basePath = TrimSuffix (normalizedPrefix @ normalizedPath) ''/'';
                                 workerTarget = TrimSuffix workerBase ''/'' @ basePath @ ''/''
                                                  @ upstreamHost
                             in if rawQuery \<noteq> [] then workerTarget @ ''?'' @ rawQuery
                                else workerTarget))))"

definition antigravityPrefix :: "string \<Rightarrow> string" where
  "antigravityPrefix host =
     (if host = ''daily-cloudcode-pa.sandbox.googleapis.com'' then ''/antigravity-sandbox''
      else if host = ''daily-cloudcode-pa.googleapis.com'' then ''/antigravity-daily''
      else if host = ''cloudcode-pa.googleapis.com'' then ''/antigravity-cloudcode''
      else ''/antigravity-sandbox'')"

definition resolveReverseProxyURLWithID ::
    "stdlib \<Rightarrow> (string \<Rightarrow> parsedURL option) \<Rightarrow> Config option \<Rightarrow> string \<Rightarrow> string \<Rightarrow> string \<Rightarrow>
     string" where
  "resolveReverseProxyURLWithID L urlParse cfg proxyID provider originalURL =
     (case cfg of
        None \<Rightarrow> originalURL
      | Some c \<Rightarrow>
          if ReverseProxies c = [] \<or> proxyID = [] then originalURL
          else
            (case findReverseProxyByID cfg proxyID of
               None \<Rightarrow> originalURL
             | Some proxyConfig \<Rightarrow>
                 (case urlParse originalURL of
                    None \<Rightarrow> originalURL
                  | Some parsed \<Rightarrow>
                      let proxyBase = TrimSuffix (BaseURL proxyConfig) ''/'';
                          prefix = (if provider = ''antigravity'' then antigravityPrefix (Host parsed)
                                    else if provider = ''codex'' then ''/codex''
                                    else ''/'' @ provider);
                          newPath = (if \<not> HasPrefix (Path parsed) ''/'' then ''/'' @ Path parsed
                                     else Path parsed);
                          workerURL = buildReverseProxyWorkerURL L urlParse cfg (BaseURL proxyConfig)
                                        prefix newPath (RawQuery parsed)
                      in
                        if workerURL \<noteq> [] then workerURL
                        else
                          let newURL = proxyBase @ prefix @ newPath in
                          if RawQuery parsed \<noteq> [] then newURL @ ''?'' @ RawQuery parsed
                          else newURL)))"

definition resolveReverseProxyRouteWithID ::
    "stdlib \<Rightarrow> (string \<Rightarrow> parsedURL option) \<Rightarrow> Config option \<Rightarrow> string \<Rightarrow> string \<Rightarrow> string \<Rightarrow>
     time \<Rightarrow> banState \<Rightarrow> reverseProxyResolution \<times> banState" where
  "resolveReverseProxyRouteWithID L urlParse cfg proxyID provider originalURL now bannedTill =
     (let result = \<lparr>URL = originalURL, ProxyID = TrimSpace proxyID, Proxied = False\<rparr> in
      if ProxyID result = [] then (result, bannedTill)
      else
        (case isReverseProxyTemporarilyBanned now (ProxyID result) bannedTill of
           (banned, bannedTill') \<Rightarrow>
             if banned then (result, bannedTill')
             else
               let url = resolveReverseProxyURLWithID L urlParse cfg (ProxyID result) provider
                           originalURL
               in (result\<lparr>URL := url, Proxied := (url \<noteq> originalURL)\<rparr>, bannedTill')))"

definition resolveReverseProxyRouteForAuth ::
    "stdlib \<Rightarrow> (Auth \<Rightarrow> string) \<Rightarrow> (string \<Rightarrow> parsedURL option) \<Rightarrow> Config option \<Rightarrow>
     Auth option \<Rightarrow> string \<Rightarrow> string \<Rightarrow> time \<Rightarrow> banState \<Rightarrow>
     reverseProxyResolution \<times> banState" where
  "resolveReverseProxyRouteForAuth L ensureIndex urlParse cfg auth provider originalURL now
     bannedTill =
     (let proxyID = resolveProxyIDForAuth ensureIndex cfg auth;
          proxyID = (if proxyID = [] then resolveProxyIDForProvider cfg provider else proxyID)
      in resolveReverseProxyRouteWithID L urlParse cfg proxyID provider originalURL now bannedTill)"

text \<open>
  \<open>applyReverseProxyHeaders\<close> reads the ban state, which evicts an expired entry; that effect
  is what the model keeps of it (the headers it writes on the request are not modelled).
\<close>

definition applyReverseProxyHeaders ::
    "(Auth \<Rightarrow> string) \<Rightarrow> Config option \<Rightarrow> Auth option \<Rightarrow> string \<Rightarrow> time \<Rightarrow> banState \<Rightarrow> banState" where
  "applyReverseProxyHeaders ensureIndex cfg auth provider now bannedTill =
     (case cfg of
        None \<Rightarrow> bannedTill
      | Some c \<Rightarrow>
          let proxyID = resolveProxyIDForAuth ensureIndex cfg auth;
              proxyID = (if proxyID = [] then resolveProxyIDForProvider cfg provider else proxyID)
          in if proxyID = [] then bannedTill
             else snd (isReverseProxyTemporarilyBanned now proxyID bannedTill))"

definition requestDetailMarker :: string where
  "requestDetailMarker =
     [CHR 0xE8, CHR 0xAF, CHR 0xB7, CHR 0xE6, CHR 0xB1, CHR 0x82,
      CHR 0xE8, CHR 0xAF, CHR 0xA6, CHR 0xE6, CHR 0x83, CHR 0x85]"

definition banPatterns :: "string list" where
  "banPatterns =
     [''request detail'', ''status 404'', [CHR 0x22] @ ''status'' @ [CHR 0x22] @ '':404'',
      ''/v1/v1/messages'']"

definition shouldBanReverseProxyOnError :: "stdlib \<Rightarrow> int \<Rightarrow> string \<Rightarrow> bool" where
  "shouldBanReverseProxyOnError L statusCode errMsg =
     (if statusCode = 404 \<or> statusCode = 502 \<or> statusCode = 503 \<or> statusCode = 504 then True
      else if statusCode = 520 \<or> statusCode = 521 \<or> statusCode = 522 \<or> statusCode = 523
              \<or> statusCode = 524 then True
      else
        let msg = ToLower L (TrimSpace errMsg) in
        if msg = [] then False
        else if Contains msg requestDetailMarker then True
        else list_ex (Contains msg) banPatterns)"

section \<open>Quota payloads (gjson)\<close>

text \<open>
  A quota payload is read through the gjson library. The model starts from the parsed
  document: \<open>gjson.ParseBytes\<close> is a parameter \<open>parse\<close>, and a \<open>gjson.Result\<close> is a
  \<open>json option\<close>, \<open>None\<close> when the result does not exist. A JSON number carries the
  \<open>float64\<close> that \<open>Result.Float()\<close> returns.
\<close>

datatype json =
    JNull
  | JFalse
  | JTrue
  | JNumber float64
  | JString string
  | JArray "json list"
  | JObject "(string \<times> json) list"

definition gjsonGet :: "json option \<Rightarrow> string \<Rightarrow> json option" where
  "gjsonGet r key = (case r of Some (JObject kvs) \<Rightarrow> map_of kvs key | _ \<Rightarrow> None)"

text \<open>
  \<open>Result.Bool()\<close>; on a string it is \<open>strconv.ParseBool\<close> of the lower-cased text, which is
  true for \<open>1\<close>, \<open>t\<close>, \<open>T\<close>, \<open>TRUE\<close>, \<open>true\<close> and \<open>True\<close>.
\<close>

definition gjsonBool :: "stdlib \<Rightarrow> json option \<Rightarrow> bool" where
  "gjsonBool L r =
     (case r of
        Some JTrue \<Rightarrow> True
      | Some (JString s) \<Rightarrow> ToLower L s \<in> {''1'', ''t'', ''T'', ''TRUE'', ''true'', ''True''}
      | Some (JNumber n) \<Rightarrow> floatNonZero n
      | _ \<Rightarrow> False)"

text \<open>
  In the default branch of \<open>gjsonToFloat\<close> the text handed to \<open>strconv.ParseFloat\<close> is
  \<open>true\<close>, \<open>false\<close>, empty, or starts with a bracket or a brace, none of which it accepts.
\<close>

definition gjsonToFloat :: "stdlib \<Rightarrow> json option \<Rightarrow> float64 option" where
  "gjsonToFloat L r =
     (case r of
        None \<Rightarrow> None
      | Some (JNumber n) \<Rightarrow> Some n
      | Some (JString s) \<Rightarrow>
          (let trimmed = TrimSpace s in if trimmed = [] then None else ParseFloat L trimmed)
      | Some _ \<Rightarrow> None)"

text \<open>
  The tests the source makes on a result: \<open>resultPresent\<close> is
  \<open>r.Exists() && r.Type != gjson.Null\<close>, \<open>floatAtLeast L r c\<close> is
  \<open>v, ok := gjsonToFloat(r); ok && v >= c\<close>, and \<open>positiveFloat L r\<close> is the \<open>v\<close> of
  \<open>v, ok := gjsonToFloat(r); ok && v > 0\<close>.
\<close>

definition resultPresent :: "json option \<Rightarrow> bool" where
  "resultPresent r = (r \<noteq> None \<and> r \<noteq> Some JNull)"

definition floatAtLeast :: "stdlib \<Rightarrow> json option \<Rightarrow> int \<Rightarrow> bool" where
  "floatAtLeast L r bound = (case gjsonToFloat L r of Some v \<Rightarrow> floatGe v bound | None \<Rightarrow> False)"

definition positiveFloat :: "stdlib \<Rightarrow> json option \<Rightarrow> float64 option" where
  "positiveFloat L r =
     (case gjsonToFloat L r of Some v \<Rightarrow> if floatPositive v then Some v else None | None \<Rightarrow> None)"

definition codexWindowRecoverAt :: "stdlib \<Rightarrow> json option \<Rightarrow> time \<Rightarrow> time \<times> bool" where
  "codexWindowRecoverAt L window now =
     (case positiveFloat L (gjsonGet window ''reset_at'') of
        Some resetAt \<Rightarrow> (timeUnix (floatToInt64 L resetAt), True)
      | None \<Rightarrow>
     (case positiveFloat L (gjsonGet window ''resetAt'') of
        Some resetAt \<Rightarrow> (timeUnix (floatToInt64 L resetAt), True)
      | None \<Rightarrow>
     (case positiveFloat L (gjsonGet window ''reset_after_seconds'') of
        Some resetAfter \<Rightarrow> (now + floatToInt64 L (floatTimes L resetAfter Second), True)
      | None \<Rightarrow>
     (case positiveFloat L (gjsonGet window ''resetAfterSeconds'') of
        Some resetAfter \<Rightarrow> (now + floatToInt64 L (floatTimes L resetAfter Second), True)
      | None \<Rightarrow> (zeroTime, False)))))"

type_synonym candidate = "time \<times> string"

definition appendCodexWindowCandidate ::
    "stdlib \<Rightarrow> candidate list \<Rightarrow> json option \<Rightarrow> bool \<Rightarrow> string \<Rightarrow> time \<Rightarrow> candidate list" where
  "appendCodexWindowCandidate L candidates window parentLimited reason now =
     (if \<not> resultPresent window then candidates
      else
        let windowLimited = parentLimited;
            windowLimited = (if floatAtLeast L (gjsonGet window ''used_percent'') 100 then True
                             else windowLimited);
            windowLimited = (if floatAtLeast L (gjsonGet window ''usedPercent'') 100 then True
                             else windowLimited)
        in
          if \<not> windowLimited then candidates
          else
            (case codexWindowRecoverAt L window now of
               (resetAt, ok) \<Rightarrow>
                 if \<not> ok \<or> \<not> now < resetAt then candidates
                 else candidates @ [(resetAt, reason)]))"

definition resolveCodexWindowReason :: "stdlib \<Rightarrow> json option \<Rightarrow> string \<Rightarrow> string \<Rightarrow> string" where
  "resolveCodexWindowReason L window reasonPrimary reasonSecondary =
     (if reasonPrimary = reasonSecondary then reasonPrimary
      else if \<not> resultPresent window then reasonPrimary
      else if floatAtLeast L (gjsonGet window ''limit_window_seconds'') (24 * 60 * 60)
        then reasonSecondary
      else if floatAtLeast L (gjsonGet window ''limitWindowSeconds'') (24 * 60 * 60)
        then reasonSecondary
      else if floatAtLeast L (gjsonGet window ''reset_after_seconds'') (24 * 60 * 60)
        then reasonSecondary
      else if floatAtLeast L (gjsonGet window ''resetAfterSeconds'') (24 * 60 * 60)
        then reasonSecondary
      else reasonPrimary)"

definition parentLimited :: "stdlib \<Rightarrow> json option \<Rightarrow> bool" where
  "parentLimited L rateLimit =
     (let limited = (gjsonBool L (gjsonGet rateLimit ''limit_reached'')
                     \<or> gjsonBool L (gjsonGet rateLimit ''limitReached''));
          allowed = gjsonGet rateLimit ''allowed''
      in if allowed \<noteq> None \<and> \<not> gjsonBool L allowed then True else limited)"

definition addByRateLimit ::
    "stdlib \<Rightarrow> candidate list \<Rightarrow> json option \<Rightarrow> string \<Rightarrow> string \<Rightarrow> time \<Rightarrow> candidate list" where
  "addByRateLimit L candidates rateLimit reasonPrimary reasonSecondary now =
     (if \<not> resultPresent rateLimit then candidates
      else
        let limited = parentLimited L rateLimit;
            candidates = appendCodexWindowCandidate L candidates
                           (gjsonGet rateLimit ''primary_window'') limited
                           (resolveCodexWindowReason L (gjsonGet rateLimit ''primary_window'')
                              reasonPrimary reasonSecondary) now;
            candidates = appendCodexWindowCandidate L candidates
                           (gjsonGet rateLimit ''primaryWindow'') limited
                           (resolveCodexWindowReason L (gjsonGet rateLimit ''primaryWindow'')
                              reasonPrimary reasonSecondary) now;
            candidates = appendCodexWindowCandidate L candidates
                           (gjsonGet rateLimit ''secondary_window'') limited reasonSecondary now
        in appendCodexWindowCandidate L candidates
             (gjsonGet rateLimit ''secondaryWindow'') limited reasonSecondary now)"

definition codexCandidates :: "stdlib \<Rightarrow> json \<Rightarrow> time \<Rightarrow> candidate list" where
  "codexCandidates L doc now =
     (let candidates = addByRateLimit L [] (gjsonGet (Some doc) ''rate_limit'')
                         ''codex_5h_limit'' ''codex_weekly_limit'' now;
          candidates = addByRateLimit L candidates (gjsonGet (Some doc) ''rateLimit'')
                         ''codex_5h_limit'' ''codex_weekly_limit'' now;
          candidates = addByRateLimit L candidates (gjsonGet (Some doc) ''code_review_rate_limit'')
                         ''codex_code_review_limit'' ''codex_code_review_limit'' now
      in addByRateLimit L candidates (gjsonGet (Some doc) ''codeReviewRateLimit'')
           ''codex_code_review_limit'' ''codex_code_review_limit'' now)"

fun earliestOf :: "candidate \<Rightarrow> candidate list \<Rightarrow> candidate" where
  "earliestOf earliest [] = earliest"
| "earliestOf earliest (c # cs) =
     (if fst c < fst earliest then earliestOf c cs else earliestOf earliest cs)"

definition codexQuotaRecoverAt ::
    "(string \<Rightarrow> json) \<Rightarrow> stdlib \<Rightarrow> string \<Rightarrow> time \<Rightarrow> time \<times> string \<times> bool" where
  "codexQuotaRecoverAt parse L payload now =
     (case codexCandidates L (parse payload) now of
        [] \<Rightarrow> (zeroTime, [], False)
      | c # cs \<Rightarrow> (case earliestOf c cs of (resetAt, reason) \<Rightarrow> (resetAt, reason, True)))"




section \<open>Status errors and the Retry-After header\<close>

text \<open>
  An \<open>http.Header\<close> maps a canonical header name to its values; \<open>headerGet\<close> is its method
  \<open>Get\<close>. \<open>Atoi\<close> is \<open>strconv.Atoi\<close> on a 64-bit platform: an optional sign and decimal
  digits, an error outside the range of \<open>int64\<close>. The product of \<open>time.Duration\<close> values wraps
  around, and \<open>Time.Sub\<close> saturates (\<open>timeSub\<close>). \<open>http.ParseTime\<close> is a
  parameter \<open>parseTime\<close>.
\<close>

definition headerGet :: "(string \<times> string list) list \<Rightarrow> string \<Rightarrow> string" where
  "headerGet h key = (case map_of h key of Some (v # vs) \<Rightarrow> v | _ \<Rightarrow> [])"

definition timeSub :: "time \<Rightarrow> time \<Rightarrow> int" where
  "timeSub t u =
     (let d = t - u in
      if 2 ^ 63 - 1 < d then 2 ^ 63 - 1 else if d < - (2 ^ 63) then - (2 ^ 63) else d)"

definition digitValue :: "char \<Rightarrow> nat option" where
  "digitValue c = map_of (zip ''0123456789'' [0, 1, 2, 3, 4, 5, 6, 7, 8, 9]) c"

fun digitsValue :: "string \<Rightarrow> nat \<Rightarrow> nat option" where
  "digitsValue [] n = Some n"
| "digitsValue (c # cs) n =
     (case digitValue c of None \<Rightarrow> None | Some d \<Rightarrow> digitsValue cs (n * 10 + d))"

definition Atoi :: "string \<Rightarrow> int option" where
  "Atoi s =
     (let neg = (case s of c # cs \<Rightarrow> c = CHR ''-'' | [] \<Rightarrow> False);
          digits = (case s of c # cs \<Rightarrow> if c = CHR ''-'' \<or> c = CHR ''+'' then cs else s | [] \<Rightarrow> s)
      in
        if digits = [] then None
        else
          (case digitsValue digits 0 of
             None \<Rightarrow> None
           | Some n \<Rightarrow>
               let v = (if neg then - int n else int n) in
               if - (2 ^ 63) \<le> v \<and> v \<le> 2 ^ 63 - 1 then Some v else None))"

definition parseRetryAfterHeader ::
    "(string \<Rightarrow> time option) \<Rightarrow> time \<Rightarrow> (string \<times> string list) list \<Rightarrow> int option" where
  "parseRetryAfterHeader parseTime now headers =
     (if headers = [] then None
      else
        let raw = TrimSpace (headerGet headers ''Retry-After'') in
        if raw = [] then None
        else
          (case (case Atoi raw of
                   Some seconds \<Rightarrow> if 0 < seconds then Some (wrap64 (seconds * Second)) else None
                 | None \<Rightarrow> None) of
             Some retryAfter \<Rightarrow> Some retryAfter
           | None \<Rightarrow>
               (case parseTime raw of
                  None \<Rightarrow> None
                | Some retryAt \<Rightarrow>
                    let retryAfter = timeSub retryAt now in
                    if retryAfter \<le> 0 then None else Some retryAfter)))"

record statusErr =
  code :: int
  msg :: string
  retryAfter :: "int option"
  quotaReason :: string

text \<open>The fields \<open>retryAfter\<close> and \<open>reason\<close> of \<open>codexQuotaCooldownHint\<close>.\<close>

record codexQuotaCooldownHint =
  hintRetryAfter :: int
  hintReason :: string

definition codexCreds :: "Auth option \<Rightarrow> string \<times> string" where
  "codexCreds a =
     (case a of
        None \<Rightarrow> ([], [])
      | Some auth \<Rightarrow>
          let apiKey = lookupStr (Attributes auth) ''api_key'';
              baseURL = lookupStr (Attributes auth) ''base_url'';
              apiKey = (if apiKey = [] then
                          (case map_of (Metadata auth) ''access_token'' of
                             Some (AString v) \<Rightarrow> v
                           | _ \<Rightarrow> apiKey)
                        else apiKey)
          in (apiKey, baseURL))"

section \<open>The network and the clock\<close>

text \<open>
  The executor runs against a world: the ban state, the clock that \<open>time.Now()\<close> reads, and
  the list of URLs requested so far. What the outside does is an environment \<open>env\<close>: the
  network answers the \<open>n\<close>-th request, to a given URL, with a transport error or a response,
  after some time has passed. The clock moves only during such an exchange, by the time the
  reply took; the steps between two exchanges take no time. The environment also holds the
  library (\<open>lib\<close> and the parsers named above) and the parts of the request pipeline that
  live outside the files at hand:
  \<open>thinkingErr\<close> is the error of \<open>thinking.ApplyThinking\<close> (if any), \<open>requestErr\<close> the error of
  \<open>http.NewRequestWithContext\<close> in \<open>cacheHelper\<close> for a URL (if any), \<open>translate\<close> the translated
  \<open>response.completed\<close> event of a response body (\<open>None\<close> when the body has none), and
  \<open>translateCompact\<close> the translation of a compact response.
\<close>

record httpResponse =
  StatusCode :: int
  Body :: string
  Header :: "(string \<times> string list) list"

record reply =
  elapsed :: int
  outcome :: "string + httpResponse"

record world =
  bannedTill :: banState
  clock :: time
  calls :: "string list"

record env =
  lib :: stdlib
  indexOf :: "Auth \<Rightarrow> string"
  parseURL :: "string \<Rightarrow> parsedURL option"
  parseTime :: "string \<Rightarrow> time option"
  parseJSON :: "string \<Rightarrow> json"
  thinkingErr :: "string option"
  requestErr :: "string \<Rightarrow> string option"
  roundTrip :: "nat \<Rightarrow> string \<Rightarrow> reply"
  translate :: "string \<Rightarrow> string option"
  translateCompact :: "string \<Rightarrow> string"

definition Do :: "env \<Rightarrow> string \<Rightarrow> world \<Rightarrow> (string + httpResponse) \<times> world" where
  "Do e url w =
     (let r = roundTrip e (length (calls w)) url in
      (outcome r, w\<lparr>clock := clock w + elapsed r, calls := calls w @ [url]\<rparr>))"

definition codexUsageURL :: string where
  "codexUsageURL = ''https://chatgpt.com/backend-api/wham/usage''"

definition non2xx :: "int \<Rightarrow> bool" where
  "non2xx statusCode = (statusCode < 200 \<or> 300 \<le> statusCode)"

text \<open>
  The result of \<open>fetchCodexQuotaCooldownHint\<close> is \<open>Some\<close> of the hint when the source returns
  it with \<open>true\<close>. The HTTP client of the caller is never nil.
\<close>

definition fetchCodexQuotaCooldownHint ::
    "env \<Rightarrow> Auth option \<Rightarrow> world \<Rightarrow> codexQuotaCooldownHint option \<times> world" where
  "fetchCodexQuotaCooldownHint e auth w =
     (case auth of
        None \<Rightarrow> (None, w)
      | Some a \<Rightarrow>
          let token = TrimSpace (fst (codexCreds auth)) in
          if token = [] then (None, w)
          else
            (case Do e codexUsageURL w of
               (Inl err, w') \<Rightarrow> (None, w')
             | (Inr resp, w') \<Rightarrow>
                 if non2xx (StatusCode resp) then (None, w')
                 else if Body resp = [] then (None, w')
                 else
                   let now = clock w' in
                   (case codexQuotaRecoverAt (parseJSON e) (lib e) (Body resp) now of
                      (retryAt, reason, ok) \<Rightarrow>
                        if \<not> ok \<or> retryAt = zeroTime \<or> \<not> now < retryAt then (None, w')
                        else (Some \<lparr>hintRetryAfter = timeSub retryAt now, hintReason = reason\<rparr>,
                              w'))))"

definition newCodexStatusErr ::
    "env \<Rightarrow> Auth option \<Rightarrow> int \<Rightarrow> string \<Rightarrow> (string \<times> string list) list \<Rightarrow> world \<Rightarrow>
     statusErr \<times> world" where
  "newCodexStatusErr e auth statusCode body headers w =
     (let sErr = \<lparr>code = statusCode, msg = body, retryAfter = None, quotaReason = []\<rparr> in
      if statusCode \<noteq> 429 then (sErr, w)
      else
        let sErr = (case parseRetryAfterHeader (parseTime e) (clock w) headers of
                      Some d \<Rightarrow> sErr\<lparr>retryAfter := Some d\<rparr>
                    | None \<Rightarrow> sErr)
        in
          (case fetchCodexQuotaCooldownHint e auth w of
             (Some hint, w') \<Rightarrow>
               (let sErr = (if 0 < hintRetryAfter hint
                            then sErr\<lparr>retryAfter := Some (hintRetryAfter hint)\<rparr> else sErr)
                in (sErr\<lparr>quotaReason := hintReason hint\<rparr>, w'))
           | (None, w') \<Rightarrow> (sErr, w')))"

section \<open>The Codex executor\<close>

text \<open>
  \<open>Execute\<close> from the point where the request body has been built. The result is the
  translated payload, an error passed on as it came (from the pipeline or the transport), or
  a status error. The usage reporter, the request log and the prompt cache of \<open>cacheHelper\<close>
  have no part in the control flow and are left out; a response body is read whole.
\<close>

datatype execResult =
    ExecResponse string
  | ExecError string
  | ExecStatusErr statusErr

definition withBan :: "world \<Rightarrow> banState \<Rightarrow> world" where
  "withBan w b = w\<lparr>bannedTill := b\<rparr>"

definition surfaceStatusErr :: "env \<Rightarrow> Auth option \<Rightarrow> httpResponse \<Rightarrow> world \<Rightarrow> execResult \<times> world" where
  "surfaceStatusErr e auth resp w =
     (case newCodexStatusErr e auth (StatusCode resp) (Body resp) (Header resp) w of
        (sErr, w') \<Rightarrow> (ExecStatusErr sErr, w'))"

definition executeCompleted :: "env \<Rightarrow> httpResponse \<Rightarrow> world \<Rightarrow> execResult \<times> world" where
  "executeCompleted e resp w =
     (case translate e (Body resp) of
        Some out \<Rightarrow> (ExecResponse out, w)
      | None \<Rightarrow>
          (ExecStatusErr
             \<lparr>code = 408,
              msg = ''stream error: stream disconnected before completion: stream closed before response.completed'',
              retryAfter = None, quotaReason = []\<rparr>, w))"

definition executeCompact :: "env \<Rightarrow> Config option \<Rightarrow> Auth option \<Rightarrow> world \<Rightarrow> execResult \<times> world" where
  "executeCompact e cfg auth w =
     (let baseURL = snd (codexCreds auth);
          baseURL = (if baseURL = [] then ''https://chatgpt.com/backend-api/codex'' else baseURL)
      in
        (case thinkingErr e of
           Some err \<Rightarrow> (ExecError err, w)
         | None \<Rightarrow>
             let url = TrimSuffix baseURL ''/'' @ ''/responses/compact'' in
             (case requestErr e url of
                Some err \<Rightarrow> (ExecError err, w)
              | None \<Rightarrow>
                  let w = withBan w (applyReverseProxyHeaders (indexOf e) cfg auth ''codex'' (clock w)
                                       (bannedTill w))
                  in
                    (case Do e url w of
                       (Inl err, w) \<Rightarrow> (ExecError err, w)
                     | (Inr resp, w) \<Rightarrow>
                         if non2xx (StatusCode resp) then surfaceStatusErr e auth resp w
                         else (ExecResponse (translateCompact e (Body resp)), w)))))"

text \<open>The direct retry: the block of \<open>Execute\<close> entered when the proxied call is to be banned.\<close>

definition executeDirectRetry ::
    "env \<Rightarrow> Config option \<Rightarrow> Auth option \<Rightarrow> reverseProxyResolution \<Rightarrow> string \<Rightarrow> httpResponse \<Rightarrow>
     world \<Rightarrow> execResult \<times> world" where
  "executeDirectRetry e cfg auth proxyRoute originalURL resp w =
     (let w = withBan w (banReverseProxyTemporarily (clock w) (ProxyID proxyRoute) ''codex''
                           (StatusCode resp) (Body resp) (bannedTill w));
          fallbackURL = originalURL
      in
        (case requestErr e fallbackURL of
           Some err \<Rightarrow> (ExecError err, w)
         | None \<Rightarrow>
             let w = withBan w (applyReverseProxyHeaders (indexOf e) cfg auth ''codex'' (clock w)
                                  (bannedTill w))
             in
               (case Do e fallbackURL w of
                  (Inl err, w) \<Rightarrow> (ExecError err, w)
                | (Inr resp2, w) \<Rightarrow>
                    if non2xx (StatusCode resp2) then surfaceStatusErr e auth resp2 w
                    else executeCompleted e resp2 w)))"

definition Execute ::
    "env \<Rightarrow> Config option \<Rightarrow> Auth option \<Rightarrow> string \<Rightarrow> world \<Rightarrow> execResult \<times> world" where
  "Execute e cfg auth alt w =
     (if alt = ''responses/compact'' then executeCompact e cfg auth w
      else
        let baseURL = snd (codexCreds auth);
            baseURL = (if baseURL = [] then ''https://chatgpt.com/backend-api/codex'' else baseURL)
        in
          (case thinkingErr e of
             Some err \<Rightarrow> (ExecError err, w)
           | None \<Rightarrow>
               let originalURL = TrimSuffix baseURL ''/'' @ ''/responses'' in
               (case resolveReverseProxyRouteForAuth (lib e) (indexOf e) (parseURL e) cfg auth ''codex''
                       originalURL (clock w) (bannedTill w) of
                  (proxyRoute, b) \<Rightarrow>
                    let w = withBan w b;
                        url = URL proxyRoute
                    in
                      (case requestErr e url of
                         Some err \<Rightarrow> (ExecError err, w)
                       | None \<Rightarrow>
                           let w = withBan w (applyReverseProxyHeaders (indexOf e) cfg auth ''codex''
                                                (clock w) (bannedTill w))
                           in
                             (case Do e url w of
                                (Inl err, w) \<Rightarrow> (ExecError err, w)
                              | (Inr resp, w) \<Rightarrow>
                                  if non2xx (StatusCode resp) then
                                    if Proxied proxyRoute
                                       \<and> shouldBanReverseProxyOnError (lib e) (StatusCode resp) (Body resp)
                                    then executeDirectRetry e cfg auth proxyRoute originalURL resp w
                                    else surfaceStatusErr e auth resp w
                                  else executeCompleted e resp w)))))"

section \<open>Client-key authentication (config\_access/provider.go)\<close>

text \<open>
  \<open>time.Parse(time.RFC3339, _)\<close> is a parameter \<open>parse3339\<close>, and the constant
  \<open>DefaultAccessProviderName\<close> a parameter \<open>defaultName\<close>. The entries of a Go map are
  visited in some order: the order of the association list. The request is given by the
  five values the function reads from it (a query value is empty when the URL is nil).
\<close>

record AccessProvider =
  Name :: string
  APIKeys :: "string list"
  AccessConfig :: "(string \<times> any) list"

record provider =
  name :: string
  keys :: "string list"
  expiresAt :: "(string \<times> time) list option"

record request =
  hAuthorization :: string
  hXGoogApiKey :: string
  hXApiKey :: string
  qKey :: string
  qAuthToken :: string

datatype accessError = ErrNotHandled | ErrNoCredentials | ErrExpiredCredential | ErrInvalidCredential

record Result =
  Provider :: string
  Principal :: string
  ResultMetadata :: "(string \<times> string) list"

definition toString :: "any \<Rightarrow> string" where
  "toString v = (case v of AString t \<Rightarrow> t | ABytes t \<Rightarrow> t | _ \<Rightarrow> [])"

fun parseStringEntries ::
    "(string \<Rightarrow> time option) \<Rightarrow> (string \<times> string) list \<Rightarrow> (string \<times> time) list \<Rightarrow> (string \<times> time) list" where
  "parseStringEntries parse3339 [] out = out"
| "parseStringEntries parse3339 ((key, val) # rest) out =
     (let key = TrimSpace key; val = TrimSpace val in
      if key = [] \<or> val = [] then parseStringEntries parse3339 rest out
      else
        (case parse3339 val of
           Some ts \<Rightarrow> parseStringEntries parse3339 rest ((key, ts) # out)
         | None \<Rightarrow> parseStringEntries parse3339 rest out))"

fun parseAnyEntries ::
    "(string \<Rightarrow> time option) \<Rightarrow> (string \<times> any) list \<Rightarrow> (string \<times> time) list \<Rightarrow> (string \<times> time) list" where
  "parseAnyEntries parse3339 [] out = out"
| "parseAnyEntries parse3339 ((key, valAny) # rest) out =
     (let key = TrimSpace key in
      if key = [] then parseAnyEntries parse3339 rest out
      else
        let val = TrimSpace (toString valAny) in
        if val = [] then parseAnyEntries parse3339 rest out
        else
          (case parse3339 val of
             Some ts \<Rightarrow> parseAnyEntries parse3339 rest ((key, ts) # out)
           | None \<Rightarrow> parseAnyEntries parse3339 rest out))"

definition parseExpiryMap ::
    "(string \<Rightarrow> time option) \<Rightarrow> AccessProvider option \<Rightarrow> (string \<times> time) list option" where
  "parseExpiryMap parse3339 cfg =
     (case cfg of
        None \<Rightarrow> None
      | Some c \<Rightarrow>
          if AccessConfig c = [] then None
          else
            let raw = (case map_of (AccessConfig c) ''api-key-expiry'' of
                         None \<Rightarrow> ANil
                       | Some v \<Rightarrow> v);
                raw = (if raw = ANil then
                         (case map_of (AccessConfig c) ''apiKeyExpiry'' of
                            None \<Rightarrow> ANil
                          | Some v \<Rightarrow> v)
                       else raw)
            in
              if raw = ANil then None
              else
                (case (case raw of
                         AMapString v \<Rightarrow> Some (parseStringEntries parse3339 v [])
                       | AMapAny v \<Rightarrow> Some (parseAnyEntries parse3339 v [])
                       | _ \<Rightarrow> None) of
                   None \<Rightarrow> None
                 | Some out \<Rightarrow> if out = [] then None else Some out))"

definition newProvider :: "string \<Rightarrow> (string \<Rightarrow> time option) \<Rightarrow> AccessProvider \<Rightarrow> provider" where
  "newProvider defaultName parse3339 cfg =
     \<lparr>name = (if Name cfg = [] then defaultName else Name cfg),
      keys = filter (\<lambda>key. key \<noteq> []) (APIKeys cfg),
      expiresAt = parseExpiryMap parse3339 (Some cfg)\<rparr>"

definition Identifier :: "string \<Rightarrow> provider option \<Rightarrow> string" where
  "Identifier defaultName p =
     (case p of
        None \<Rightarrow> defaultName
      | Some q \<Rightarrow> if name q = [] then defaultName else name q)"

text \<open>\<open>strings.SplitN(header, " ", 2)\<close>: the text before the first space and the text after it.\<close>

definition extractBearerToken :: "stdlib \<Rightarrow> string \<Rightarrow> string" where
  "extractBearerToken L header =
     (if header = [] then []
      else if CHR '' '' \<notin> set header then header
      else
        let part0 = takeWhile (\<lambda>c. c \<noteq> CHR '' '') header;
            part1 = tl (dropWhile (\<lambda>c. c \<noteq> CHR '' '') header)
        in if ToLower L part0 \<noteq> ''bearer'' then header else TrimSpace part1)"

text \<open>The expiry check of the loop of \<open>Authenticate\<close> for a key that was found.\<close>

definition keyExpired :: "provider \<Rightarrow> time \<Rightarrow> string \<Rightarrow> bool" where
  "keyExpired p now val =
     (case expiresAt p of
        None \<Rightarrow> False
      | Some m \<Rightarrow>
          (case map_of m val of
             None \<Rightarrow> False
           | Some expiry \<Rightarrow> expiry \<noteq> zeroTime \<and> \<not> now < expiry))"

fun authenticateCandidates ::
    "string \<Rightarrow> provider \<Rightarrow> time \<Rightarrow> (string \<times> string) list \<Rightarrow> accessError + Result" where
  "authenticateCandidates defaultName p now [] = Inl ErrInvalidCredential"
| "authenticateCandidates defaultName p now ((val, source) # rest) =
     (if val = [] then authenticateCandidates defaultName p now rest
      else if val \<in> set (keys p) then
        (if keyExpired p now val then Inl ErrExpiredCredential
         else Inr \<lparr>Provider = Identifier defaultName (Some p), Principal = val,
                   ResultMetadata = [(''source'', source)]\<rparr>)
      else authenticateCandidates defaultName p now rest)"

definition Authenticate ::
    "stdlib \<Rightarrow> string \<Rightarrow> provider option \<Rightarrow> time \<Rightarrow> request \<Rightarrow> accessError + Result" where
  "Authenticate L defaultName p now r =
     (case p of
        None \<Rightarrow> Inl ErrNotHandled
      | Some q \<Rightarrow>
          if keys q = [] then Inl ErrNotHandled
          else if hAuthorization r = [] \<and> hXGoogApiKey r = [] \<and> hXApiKey r = [] \<and> qKey r = []
                  \<and> qAuthToken r = [] then Inl ErrNoCredentials
          else
            authenticateCandidates defaultName q now
              [(extractBearerToken L (hAuthorization r), ''authorization''),
               (hXGoogApiKey r, ''x-goog-api-key''),
               (hXApiKey r, ''x-api-key''),
               (qKey r, ''query-key''),
               (qAuthToken r, ''query-auth-token'')])"

text \<open>
  The entries of the configured expiry map that \<open>parseExpiryMap\<close> visits, each value as the
  text it trims and parses, and the five places of a request where a key is looked for, in
  the order of the loop of \<open>Authenticate\<close>.
\<close>

definition expiryEntries :: "AccessProvider \<Rightarrow> (string \<times> string) list" where
  "expiryEntries c =
     (let raw = (case map_of (AccessConfig c) ''api-key-expiry'' of
                   None \<Rightarrow> ANil
                 | Some v \<Rightarrow> v);
          raw = (if raw = ANil then
                   (case map_of (AccessConfig c) ''apiKeyExpiry'' of
                      None \<Rightarrow> ANil
                    | Some v \<Rightarrow> v)
                 else raw)
      in case raw of
           AMapString v \<Rightarrow> v
         | AMapAny v \<Rightarrow> map (\<lambda>(key, valAny). (key, toString valAny)) v
         | _ \<Rightarrow> [])"

definition requestCandidates :: "stdlib \<Rightarrow> request \<Rightarrow> (string \<times> string) list" where
  "requestCandidates L r =
     [(extractBearerToken L (hAuthorization r), ''authorization''),
      (hXGoogApiKey r, ''x-goog-api-key''),
      (hXApiKey r, ''x-api-key''),
      (qKey r, ''query-key''),
      (qAuthToken r, ''query-auth-token'')]"

section \<open>Example configurations\<close>

text \<open>
  Concrete inputs on which the theorems below are instantiated. The texts of the examples
  that reach \<open>mapToLower\<close> hold no letter that has a lower-case form, and the numbers that
  reach \<open>roundFloat\<close> are integers below \<open>2 ^ 53\<close>, so both are the identity there; a
  conversion out of range gives the least \<open>int64\<close>, as on amd64. \<open>exampleHash\<close> stands for
  \<open>stableAuthIndex\<close>.
\<close>

definition exampleLib :: stdlib where
  "exampleLib =
     \<lparr>mapToLower = (\<lambda>s. s), foldEqual = (\<lambda>s t. s = t), ParseFloat = (\<lambda>s. None),
      roundFloat = Finite, int64OutOfRange = (\<lambda>v. - (2 ^ 63))\<rparr>"

definition exampleHash :: "string \<Rightarrow> string" where
  "exampleHash seed = ''#'' @ seed"

definition exampleRouting :: ProxyRouting where
  "exampleRouting =
     \<lparr>Codex = ''deno-1'', Antigravity = [], Claude = [], Gemini = [], GeminiCLI = [],
      Vertex = [], AIStudio = [], Qwen = [], IFlow = []\<rparr>"

definition exampleProxyDeno :: ReverseProxy where
  "exampleProxyDeno =
     \<lparr>rpID = ''deno-1'', rpName = ''deno-1'',
      BaseURL = ''https://funny-starfish-28.lauracadano-max.deno.net'', Enabled = True,
      Headers = []\<rparr>"

definition exampleProxyAuth :: ReverseProxy where
  "exampleProxyAuth =
     \<lparr>rpID = ''deno-auth'', rpName = ''deno-auth'', BaseURL = ''https://auth-route.deno.dev/'',
      Enabled = True, Headers = []\<rparr>"

definition exampleProxyWorker :: ReverseProxy where
  "exampleProxyWorker =
     \<lparr>rpID = ''worker'', rpName = ''worker'',
      BaseURL = ''https://cpa-deno-bridge.mengcenfay.workers.dev'', Enabled = True,
      Headers = []\<rparr>"

definition exampleConfig :: Config where
  "exampleConfig =
     \<lparr>APIKeyAuth = [(''client-1'', [''auth-a.json'', '' idx-b '', ''  '']), (''client-2'', []),
                    (''client-4'', ['' '', [], [CHR 0xC2, CHR 0xA0], [CHR 0xE3, CHR 0x80, CHR 0x80]]),
                    (''client-5'', [''#file:auth-a.json'', ''#api_key:sk-d'', ''#id:e1'', ''idx-c''])],
      ProxyRouting = exampleRouting,
      ProxyRoutingAuth = [(''a1'', ''deno-auth''), (''auth-a.json'', ''worker''),
                          (''idx-b'', ''worker''), (''auth-c.json'', ''deno-1'')],
      ReverseProxies = [exampleProxyDeno, exampleProxyAuth, exampleProxyWorker],
      ReverseProxyWorkerURL = []\<rparr>"

text \<open>
  The identifier \<open>deno-1\<close> between a no-break space (U+00A0) and a space in front and an
  ideographic space (U+3000) behind.
\<close>

definition examplePaddedID :: string where
  "examplePaddedID = [CHR 0xC2, CHR 0xA0] @ '' deno-1'' @ [CHR 0xE3, CHR 0x80, CHR 0x80]"



definition hostURL :: "string \<Rightarrow> string \<Rightarrow> string \<Rightarrow> parsedURL" where
  "hostURL host urlPath query = \<lparr>Host = host, Hostname = host, Path = urlPath, RawQuery = query\<rparr>"

definition exampleURLParse :: "string \<Rightarrow> parsedURL option" where
  "exampleURLParse s =
     (if s = ''https://cpa-deno-bridge.mengcenfay.workers.dev''
        then Some (hostURL ''cpa-deno-bridge.mengcenfay.workers.dev'' [] [])
      else if s = ''https://CPA-Deno-Bridge.MengCenFay.workers.dev''
        then Some (hostURL ''CPA-Deno-Bridge.MengCenFay.workers.dev'' [] [])
      else if s = ''https://funny-starfish-28.lauracadano-max.deno.net''
        then Some (hostURL ''funny-starfish-28.lauracadano-max.deno.net'' [] [])
      else if s = ''https://auth-route.deno.dev/''
        then Some (hostURL ''auth-route.deno.dev'' ''/'' [])
      else if s = ''https://chatgpt.com/backend-api/codex/responses?stream=true''
        then Some (hostURL ''chatgpt.com'' ''/backend-api/codex/responses'' ''stream=true'')
      else if s = ''https://chatgpt.com/backend-api/codex/responses''
        then Some (hostURL ''chatgpt.com'' ''/backend-api/codex/responses'' [])
      else if s = ''https://chatgpt.com/backend-api/codex/''
        then Some (hostURL ''chatgpt.com'' ''/backend-api/codex/'' [])
      else None)"

definition exampleAuthA :: Auth where
  "exampleAuthA =
     \<lparr>ID = ''a1'', Index = [], FileName = ''auth-a.json'', Attributes = [],
      Metadata = [(''access_token'', AString ''token-a'')]\<rparr>"

definition exampleAuthB :: Auth where
  "exampleAuthB =
     \<lparr>ID = ''b1'', Index = ''idx-b'', FileName = [], Attributes = [],
      Metadata = [(''access_token'', AString ''token-b'')]\<rparr>"

definition exampleAuthC :: Auth where
  "exampleAuthC =
     \<lparr>ID = ''c1'', Index = ''idx-c'', FileName = ''auth-c.json'', Attributes = [], Metadata = []\<rparr>"

definition exampleAuthD :: Auth where
  "exampleAuthD =
     \<lparr>ID = ''d1'', Index = [], FileName = [], Attributes = [(''api_key'', ''sk-d'')],
      Metadata = []\<rparr>"





definition examplePayloadLongPrimary :: json where
  "examplePayloadLongPrimary =
     JObject [(''rate_limit'',
               JObject [(''limit_reached'', JTrue),
                        (''primary_window'',
                         JObject [(''reset_after_seconds'', JNumber (Finite 18000)),
                                  (''limit_window_seconds'', JNumber (Finite 604800))]),
                        (''secondary_window'',
                         JObject [(''reset_after_seconds'', JNumber (Finite 86400))])])]"

text \<open>
  An environment for the executor. The upstream reached through proxy \<open>deno-1\<close> answers 502,
  the one reached through \<open>deno-auth\<close> answers 400, the upstream itself answers 429 with
  \<open>Retry-After: 120\<close>, and the usage endpoint reports a reached limit whose primary window
  resets in 60 seconds; every exchange takes one second.
\<close>

definition quoted :: "string \<Rightarrow> string" where
  "quoted s = CHR 0x22 # s @ [CHR 0x22]"

definition exampleUsageBody :: string where
  "exampleUsageBody =
     ''{'' @ quoted ''rate_limit'' @ '':{'' @ quoted ''limit_reached'' @ '':true,''
     @ quoted ''primary_window'' @ '':{'' @ quoted ''reset_after_seconds'' @ '':60}}}''"

definition exampleUsageDoc :: json where
  "exampleUsageDoc =
     JObject [(''rate_limit'',
               JObject [(''limit_reached'', JTrue),
                        (''primary_window'',
                         JObject [(''reset_after_seconds'', JNumber (Finite 60))])])]"

definition examplePayloadReview :: json where
  "examplePayloadReview =
     JObject [(''rate_limit'',
               JObject [(''limit_reached'', JTrue),
                        (''primary_window'', JObject [(''reset_after_seconds'', JNumber (Finite 18000))]),
                        (''secondary_window'',
                         JObject [(''reset_after_seconds'', JNumber (Finite 86400))])]),
              (''code_review_rate_limit'',
               JObject [(''limit_reached'', JTrue),
                        (''primary_window'', JObject [(''reset_after_seconds'', JNumber (Finite 60))])])]"

definition exampleReviewBody :: string where
  "exampleReviewBody =
     ''{'' @ quoted ''rate_limit'' @ '':{'' @ quoted ''limit_reached'' @ '':true,''
     @ quoted ''primary_window'' @ '':{'' @ quoted ''reset_after_seconds'' @ '':18000},''
     @ quoted ''secondary_window'' @ '':{'' @ quoted ''reset_after_seconds'' @ '':86400}},''
     @ quoted ''code_review_rate_limit'' @ '':{'' @ quoted ''limit_reached'' @ '':true,''
     @ quoted ''primary_window'' @ '':{'' @ quoted ''reset_after_seconds'' @ '':60}}}''"

definition examplePrimaryLongBody :: string where
  "examplePrimaryLongBody =
     ''{'' @ quoted ''rate_limit'' @ '':{'' @ quoted ''limit_reached'' @ '':true,''
     @ quoted ''primary_window'' @ '':{'' @ quoted ''reset_after_seconds'' @ '':18000,''
     @ quoted ''limit_window_seconds'' @ '':604800},''
     @ quoted ''secondary_window'' @ '':{'' @ quoted ''reset_after_seconds'' @ '':86400}}}''"

definition exampleParseJSON :: "string \<Rightarrow> json" where
  "exampleParseJSON s =
     (if s = exampleUsageBody then exampleUsageDoc
      else if s = examplePrimaryLongBody then examplePayloadLongPrimary
      else if s = exampleReviewBody then examplePayloadReview
      else JNull)"

definition exampleRoundTrip :: "nat \<Rightarrow> string \<Rightarrow> reply" where
  "exampleRoundTrip n url =
     \<lparr>elapsed = 1000000000,
      outcome =
        (if url = ''https://funny-starfish-28.lauracadano-max.deno.net/codex/backend-api/codex/responses''
           then Inr \<lparr>StatusCode = 502, Body = ''bad gateway'', Header = []\<rparr>
         else if url = ''https://auth-route.deno.dev/codex/backend-api/codex/responses''
           then Inr \<lparr>StatusCode = 400, Body = ''invalid model'', Header = []\<rparr>
         else if url = ''https://chatgpt.com/backend-api/codex/responses''
           then Inr \<lparr>StatusCode = 429, Body = ''too many requests'',
                     Header = [(''Retry-After'', [''120''])]\<rparr>
         else if url = codexUsageURL
           then Inr \<lparr>StatusCode = 200, Body = exampleUsageBody, Header = []\<rparr>
         else Inl ''no route to host'')\<rparr>"


definition exampleEnv :: env where
  "exampleEnv =
     \<lparr>lib = exampleLib,
      indexOf = authIndexForMatch exampleHash,
      parseURL = exampleURLParse,
      parseTime = (\<lambda>s. None),
      parseJSON = exampleParseJSON,
      thinkingErr = None,
      requestErr = (\<lambda>url. None),
      roundTrip = exampleRoundTrip,
      translate = (\<lambda>body. Some body),
      translateCompact = (\<lambda>body. body)\<rparr>"

definition exampleWorld :: world where
  "exampleWorld = \<lparr>bannedTill = Map.empty, clock = 0, calls = []\<rparr>"

text \<open>
  An access configuration with five client keys: one expired at the Unix epoch, one whose
  expiry is the zero time, one whose expiry text does not parse, one with two expiry entries
  whose names differ in white space only, and one without an expiry entry.
\<close>

definition exampleAccess :: AccessProvider where
  "exampleAccess =
     \<lparr>Name = ''config'',
      APIKeys = [''key-old'', ''key-zero'', ''key-odd'', ''key-dup'', ''key-free''],
      AccessConfig =
        [(''api-key-expiry'',
          AMapAny [('' key-old '', AString ''1970-01-01T00:00:00Z''),
                   (''key-zero'', AString ''0001-01-01T00:00:00Z''),
                   (''key-odd'', AString ''next week''),
                   ('' key-dup '', AString ''1970-01-01T00:00:00Z''),
                   (''key-dup'', AString ''2999-01-01T00:00:00Z'')])]\<rparr>"

definition exampleParse3339 :: "string \<Rightarrow> time option" where
  "exampleParse3339 s =
     (if s = ''1970-01-01T00:00:00Z'' then Some 0
      else if s = ''0001-01-01T00:00:00Z'' then Some zeroTime
      else if s = ''2999-01-01T00:00:00Z'' then Some 32472144000000000000
      else None)"

definition bearerRequest :: "string \<Rightarrow> request" where
  "bearerRequest key =
     \<lparr>hAuthorization = ''Bearer '' @ key, hXGoogApiKey = [], hXApiKey = [], qKey = [],
      qAuthToken = []\<rparr>"


section \<open>Facts about the string helpers\<close>

lemmas TrimSpace_eval = TrimSpace_def isSpace1_def isSpace2_def isSpace3_def

lemma TrimSpace_Nil [simp]: "TrimSpace [] = []"
  by (simp add: TrimSpace_def)

lemma trimLeft_length: "length (trimLeft s) \<le> length s"
  by (induction s rule: trimLeft.induct) auto

lemma trimRight_length: "length (trimRight s) \<le> length s"
  by (induction s rule: trimRight.induct) auto

lemma trimLeft_idem: "trimLeft (trimLeft s) = trimLeft s"
  by (induction s rule: trimLeft.induct) auto

lemma trimRight_idem: "trimRight (trimRight s) = trimRight s"
  by (induction s rule: trimRight.induct) auto

lemma trimRight_suffix: "\<exists>w. s = w @ trimRight s"
proof (induction s rule: trimRight.induct)
  case (1 c b a s)
  show ?case
  proof (cases "isSpace1 c")
    case True
    with 1(1) obtain w where "b # a # s = w @ trimRight (b # a # s)" by blast
    then have "c # b # a # s = (c # w) @ trimRight (b # a # s)" by simp
    with True show ?thesis by (metis trimRight.simps(1))
  next
    case n1: False
    show ?thesis
    proof (cases "isSpace2 b c")
      case True
      with n1 1(2) obtain w where "a # s = w @ trimRight (a # s)" by blast
      then have "c # b # a # s = (c # b # w) @ trimRight (a # s)" by simp
      with n1 True show ?thesis by (metis trimRight.simps(1))
    next
      case n2: False
      show ?thesis
      proof (cases "isSpace3 a b c")
        case True
        with n1 n2 1(3) obtain w where "s = w @ trimRight s" by blast
        then have "c # b # a # s = (c # b # a # w) @ trimRight s" by simp
        with n1 n2 True show ?thesis by (metis trimRight.simps(1))
      next
        case False
        with n1 n2 show ?thesis by simp
      qed
    qed
  qed
next
  case (2 c b)
  then show ?case
    by (cases "isSpace1 c"; cases "isSpace1 b"; cases "isSpace2 b c")
       (auto intro: exI [of _ "[c]"] exI [of _ "[c, b]"])
next
  case (3 c)
  then show ?case by (auto intro: exI [of _ "[c]"])
next
  case 4
  then show ?case by simp
qed

lemma trimLeft_shorter:
  "isSpace1 a \<Longrightarrow> length (trimLeft (a # s)) < length (a # s)"
  "isSpace2 a b \<Longrightarrow> length (trimLeft (a # b # s)) < length (a # b # s)"
  "isSpace3 a b c \<Longrightarrow> length (trimLeft (a # b # c # s)) < length (a # b # c # s)"
proof -
  have le: "length (trimLeft x) < Suc (length x)" for x
    using trimLeft_length [of x] by simp
  have le2: "length (trimLeft x) < Suc (Suc (length x))" for x
    using trimLeft_length [of x] by simp
  have le3: "length (trimLeft x) < Suc (Suc (Suc (length x)))" for x
    using trimLeft_length [of x] by simp
  show "isSpace1 a \<Longrightarrow> length (trimLeft (a # s)) < length (a # s)"
    using le [of "tl (a # s)"]
    by (cases s rule: trimLeft.cases) (auto simp: le)
  show "isSpace2 a b \<Longrightarrow> length (trimLeft (a # b # s)) < length (a # b # s)"
    using le [of "a # b # s"] le2 [of s] le [of "b # s"]
    by (cases s) (auto simp: le le2)
  show "isSpace3 a b c \<Longrightarrow> length (trimLeft (a # b # c # s)) < length (a # b # c # s)"
    using le [of "b # c # s"] le2 [of "c # s"] le3 [of s]
    by auto
qed

lemma trimLeft_fixed_prefix:
  assumes "trimLeft (u @ w) = u @ w"
  shows "trimLeft u = u"
proof -
  have n1: "\<not> isSpace1 a" if "u @ w = a # r" for a r
    using trimLeft_shorter(1) [of a r] assms that by auto
  have n2: "\<not> isSpace2 a b" if "u @ w = a # b # r" for a b r
    using trimLeft_shorter(2) [of a b r] assms that by auto
  have n3: "\<not> isSpace3 a b c" if "u @ w = a # b # c # r" for a b c r
    using trimLeft_shorter(3) [of a b c r] assms that by auto
  show ?thesis
  proof (cases u rule: trimLeft.cases)
    case (1 a b c s)
    with n1 [of a "b # c # s @ w"] n2 [of a b "c # s @ w"] n3 [of a b c "s @ w"]
    show ?thesis by simp
  next
    case (2 a b)
    with n1 [of a "b # w"] n2 [of a b w] show ?thesis by simp
  next
    case (3 a)
    with n1 [of a w] show ?thesis by simp
  next
    case 4
    then show ?thesis by simp
  qed
qed

lemma TrimSpace_idem [simp]: "TrimSpace (TrimSpace s) = TrimSpace s"
proof -
  let ?t = "trimLeft s"
  let ?u = "rev (trimRight (rev ?t))"
  obtain w where "rev ?t = w @ trimRight (rev ?t)"
    using trimRight_suffix by blast
  then have "?t = ?u @ rev w" by (metis rev_append rev_rev_ident)
  with trimLeft_idem [of s] have "trimLeft (?u @ rev w) = ?u @ rev w" by simp
  then have "trimLeft ?u = ?u" by (rule trimLeft_fixed_prefix)
  then show ?thesis by (simp add: TrimSpace_def trimRight_idem)
qed

lemma TrimSpace_examples:
  "TrimSpace '' deno-1 '' = ''deno-1''"
  "TrimSpace ([CHR 0xC2, CHR 0xA0] @ ''client-2'' @ [CHR 0xE2, CHR 0x80, CHR 0x83, CHR 0x0A])
     = ''client-2''"
  "TrimSpace [CHR 0xE3, CHR 0x80, CHR 0x80] = []"
  "TrimSpace [CHR 0xC2, CHR 0xA0, CHR 0xC2] = [CHR 0xC2]"
  by (simp_all add: TrimSpace_eval)

section \<open>Facts about the ban state\<close>

lemma ban_stored:
  "TrimSpace proxyID \<noteq> [] \<Longrightarrow>
   banReverseProxyTemporarily now proxyID provider statusCode errMsg m (TrimSpace proxyID) =
     Some (case m (TrimSpace proxyID) of
             None \<Rightarrow> now + reverseProxyBanTTL
           | Some current \<Rightarrow> max current (now + reverseProxyBanTTL))"
  by (auto simp: banReverseProxyTemporarily_def Let_def max_def split: option.splits)

lemma ban_step_mono:
  "m k = Some t \<Longrightarrow>
   \<exists>t'. banReverseProxyTemporarily now proxyID provider statusCode errMsg m k = Some t' \<and> t \<le> t'"
  by (auto simp: banReverseProxyTemporarily_def Let_def split: option.splits)

lemma applyBanEvent_mono:
  "m k = Some t \<Longrightarrow> \<exists>t'. applyBanEvent e m k = Some t' \<and> t \<le> t'"
  by (cases e) (simp add: ban_step_mono)

lemma applyBanEvents_mono:
  "m k = Some t \<Longrightarrow> \<exists>t'. applyBanEvents es m k = Some t' \<and> t \<le> t'"
proof (induction es arbitrary: m t)
  case Nil
  then show ?case by simp
next
  case (Cons e es)
  from Cons.prems obtain t1 where t1: "applyBanEvent e m k = Some t1" "t \<le> t1"
    using applyBanEvent_mono by blast
  from t1(1) obtain t2 where "applyBanEvents es (applyBanEvent e m) k = Some t2" "t1 \<le> t2"
    using Cons.IH by blast
  with t1(2) show ?case by auto
qed

text \<open>
  C5. Banning never shortens a ban. For a proxy id that is not blank, the expiry stored by
  \<open>banReverseProxyTemporarily\<close> under the trimmed id is the later of the expiry stored before
  (if there was one) and \<open>now\<close> plus the five-minute TTL; and over any sequence of ban calls,
  for any ids and any clock readings, an expiry that was stored for an id is still stored
  afterwards and is at least as late.
\<close>

theorem ban_never_shortens:
  "(TrimSpace proxyID \<noteq> [] \<longrightarrow>
      banReverseProxyTemporarily now proxyID provider statusCode errMsg m (TrimSpace proxyID) =
        Some (case m (TrimSpace proxyID) of
                None \<Rightarrow> now + 5 * 60 * 1000000000
              | Some current \<Rightarrow> max current (now + 5 * 60 * 1000000000)))
   \<and> (\<forall>k t. m k = Some t \<longrightarrow>
         (\<exists>t'. banReverseProxyTemporarily now proxyID provider statusCode errMsg m k = Some t'
               \<and> t \<le> t'))
   \<and> (\<forall>k t. m k = Some t \<longrightarrow> (\<exists>t'. applyBanEvents es m k = Some t' \<and> t \<le> t'))"
proof (intro conjI allI impI)
  assume "TrimSpace proxyID \<noteq> []"
  from ban_stored [OF this, of now provider statusCode errMsg m]
  show "banReverseProxyTemporarily now proxyID provider statusCode errMsg m (TrimSpace proxyID) =
        Some (case m (TrimSpace proxyID) of
                None \<Rightarrow> now + 5 * 60 * 1000000000
              | Some current \<Rightarrow> max current (now + 5 * 60 * 1000000000))"
    by (simp add: reverseProxyBanTTL_def Minute_def Second_def split: option.splits)
next
  fix k t assume "m k = Some t"
  then show "\<exists>t'. banReverseProxyTemporarily now proxyID provider statusCode errMsg m k = Some t'
               \<and> t \<le> t'"
    by (rule ban_step_mono)
next
  fix k t assume "m k = Some t"
  then show "\<exists>t'. applyBanEvents es m k = Some t' \<and> t \<le> t'"
    by (rule applyBanEvents_mono)
qed

theorem ban_never_shortens_witness:
  "TrimSpace '' deno-1 '' = ''deno-1''
   \<and> banReverseProxyTemporarily 1000 '' deno-1 '' ''codex'' 404 ''status 404''
        [''deno-1'' \<mapsto> 900000000000] ''deno-1'' = Some 900000000000
   \<and> banReverseProxyTemporarily 1000 '' deno-1 '' ''codex'' 404 ''status 404''
        [''deno-1'' \<mapsto> 7] ''deno-1'' = Some 300000001000
   \<and> (\<exists>t'. applyBanEvents
              [BanEvent 2000 ''deno-1'' ''codex'' 502 [], BanEvent 1000 ''deno-1'' ''codex'' 404 []]
              [''deno-1'' \<mapsto> 7] ''deno-1'' = Some t' \<and> 7 \<le> t')"
  using ban_never_shortens [of "'' deno-1 ''" 1000 "''codex''" 404 "''status 404''"
      "[''deno-1'' \<mapsto> 900000000000]"
      "[BanEvent 2000 ''deno-1'' ''codex'' 502 [], BanEvent 1000 ''deno-1'' ''codex'' 404 []]"]
    ban_never_shortens [of "'' deno-1 ''" 1000 "''codex''" 404 "''status 404''"
      "[''deno-1'' \<mapsto> 7]"
      "[BanEvent 2000 ''deno-1'' ''codex'' 502 [], BanEvent 1000 ''deno-1'' ''codex'' 404 []]"]
  by (simp add: TrimSpace_eval)

section \<open>Facts about the access resolver\<close>

















section \<open>Expiry of a ban\<close>

text \<open>
  C6 as the claim states it, at a concrete input: a ban placed at time 0 expires at
  300 s; at exactly that instant \<open>now \<ge> bannedUntil\<close> holds and the proxy is still
  reported banned.
\<close>

theorem ban_expiry_boundary_counterexample:
  "banReverseProxyTemporarily 0 ''deno-1'' ''codex'' 404 ''status 404'' Map.empty ''deno-1''
     = Some 300000000000
   \<and> (300000000000 :: int) \<ge> 300000000000
   \<and> fst (isReverseProxyTemporarilyBanned 300000000000 ''deno-1''
            (banReverseProxyTemporarily 0 ''deno-1'' ''codex'' 404 ''status 404'' Map.empty))
       = True"
  by (simp add: isReverseProxyTemporarilyBanned_def banReverseProxyTemporarily_def TrimSpace_eval reverseProxyBanTTL_def Minute_def Second_def)

text \<open>
  C6, amended. Per proxy id the ban state is an entry or no entry. A read reports banned
  exactly while \<open>now\<close> is not after the stored expiry (\<open>now \<le> bannedUntil\<close>) and leaves the
  state as it is; the first read with \<open>now > bannedUntil\<close> reports unbanned and removes the
  entry; a read without an entry reports unbanned. For a five-minute ban placed at \<open>t0\<close> on
  an empty state: banned at \<open>t0 + 1s\<close>, unbanned at \<open>t0 + 5m1s\<close> with the entry removed, and
  unbanned on the next read.
\<close>

theorem ban_expires_lazily:
  "(TrimSpace proxyID \<noteq> [] \<and> m (TrimSpace proxyID) = Some until \<longrightarrow>
      isReverseProxyTemporarilyBanned now proxyID m =
        (if until < now then (False, m(TrimSpace proxyID := None)) else (True, m)))
   \<and> (m (TrimSpace proxyID) = None \<longrightarrow> isReverseProxyTemporarilyBanned now proxyID m = (False, m))
   \<and> (TrimSpace proxyID \<noteq> [] \<longrightarrow>
        (let m0 = banReverseProxyTemporarily t0 proxyID provider statusCode errMsg Map.empty in
           m0 (TrimSpace proxyID) = Some (t0 + 300 * 1000000000)
         \<and> isReverseProxyTemporarilyBanned (t0 + 1000000000) proxyID m0 = (True, m0)
         \<and> isReverseProxyTemporarilyBanned (t0 + 301 * 1000000000) proxyID m0 = (False, Map.empty)
         \<and> isReverseProxyTemporarilyBanned (t0 + 301 * 1000000000) proxyID Map.empty
             = (False, Map.empty)))"
  by (auto simp: isReverseProxyTemporarilyBanned_def banReverseProxyTemporarily_def Let_def
      reverseProxyBanTTL_def Minute_def Second_def split: option.splits)

theorem ban_expires_lazily_witness:
  "TrimSpace ''deno-1'' = ''deno-1''
   \<and> isReverseProxyTemporarilyBanned 300000000000 ''deno-1'' [''deno-1'' \<mapsto> 300000000000]
       = (True, [''deno-1'' \<mapsto> 300000000000])
   \<and> isReverseProxyTemporarilyBanned 300000000001 ''deno-1'' [''deno-1'' \<mapsto> 300000000000]
       = (False, Map.empty)
   \<and> isReverseProxyTemporarilyBanned 5 ''deno-2'' [''deno-1'' \<mapsto> 300000000000]
       = (False, [''deno-1'' \<mapsto> 300000000000])
   \<and> isReverseProxyTemporarilyBanned 1000000000 ''deno-1''
        (banReverseProxyTemporarily 0 ''deno-1'' ''codex'' 404 ''status 404'' Map.empty)
       = (True, banReverseProxyTemporarily 0 ''deno-1'' ''codex'' 404 ''status 404'' Map.empty)
   \<and> isReverseProxyTemporarilyBanned 301000000000 ''deno-1''
        (banReverseProxyTemporarily 0 ''deno-1'' ''codex'' 404 ''status 404'' Map.empty)
       = (False, Map.empty)"
proof -
  have t: "TrimSpace ''deno-1'' = ''deno-1''" "TrimSpace ''deno-2'' = ''deno-2''"
    by (simp_all add: TrimSpace_eval)
  have h1: "TrimSpace ''deno-1'' \<noteq> []
      \<and> [''deno-1'' \<mapsto> (300000000000::int)] (TrimSpace ''deno-1'') = Some 300000000000"
    by (simp add: t)
  have h2: "[''deno-1'' \<mapsto> (300000000000::int)] (TrimSpace ''deno-2'') = None"
    by (simp add: t)
  have h3: "TrimSpace ''deno-1'' \<noteq> []" by (simp add: t)
  note a = ban_expires_lazily
      [of "''deno-1''" "[''deno-1'' \<mapsto> 300000000000]" 300000000000 300000000000,
       THEN conjunct1, THEN mp, OF h1]
  note b = ban_expires_lazily
      [of "''deno-1''" "[''deno-1'' \<mapsto> 300000000000]" 300000000000 300000000001,
       THEN conjunct1, THEN mp, OF h1]
  note c = ban_expires_lazily
      [of "''deno-2''" "[''deno-1'' \<mapsto> 300000000000]" _ 5,
       THEN conjunct2, THEN conjunct1, THEN mp, OF h2]
  note d = ban_expires_lazily
      [of "''deno-1''" _ _ _ 0 "''codex''" 404 "''status 404''",
       THEN conjunct2, THEN conjunct2, THEN mp, OF h3]
  from t(1) a b c d show ?thesis by (simp add: Let_def)
qed

section \<open>Facts about route resolution\<close>

lemma routeWithID_banned:
  "TrimSpace proxyID \<noteq> [] \<Longrightarrow> m (TrimSpace proxyID) = Some until \<Longrightarrow> now \<le> until \<Longrightarrow>
   resolveReverseProxyRouteWithID L up cfg proxyID provider url now m =
     (\<lparr>URL = url, ProxyID = TrimSpace proxyID, Proxied = False\<rparr>, m)"
  by (simp add: resolveReverseProxyRouteWithID_def isReverseProxyTemporarilyBanned_def Let_def)

lemma routeWithID_reported_banned:
  "fst (isReverseProxyTemporarilyBanned now (TrimSpace proxyID) m) \<Longrightarrow>
   fst (resolveReverseProxyRouteWithID L up cfg proxyID provider url now m) =
     \<lparr>URL = url, ProxyID = TrimSpace proxyID, Proxied = False\<rparr>"
  by (auto simp: resolveReverseProxyRouteWithID_def Let_def split: prod.splits)

lemma routeWithID_ProxyID:
  "ProxyID (fst (resolveReverseProxyRouteWithID L up cfg proxyID provider url now m)) = TrimSpace proxyID"
  by (auto simp: resolveReverseProxyRouteWithID_def Let_def split: prod.splits)

lemma routeWithID_none:
  "TrimSpace proxyID = [] \<Longrightarrow>
   resolveReverseProxyRouteWithID L up cfg proxyID provider url now m =
     (\<lparr>URL = url, ProxyID = [], Proxied = False\<rparr>, m)"
  by (simp add: resolveReverseProxyRouteWithID_def Let_def)

lemma routeForAuth_eq:
  "resolveReverseProxyRouteForAuth L ei up cfg auth provider url now m =
     resolveReverseProxyRouteWithID L up cfg
       (if resolveProxyIDForAuth ei cfg auth \<noteq> [] then resolveProxyIDForAuth ei cfg auth
        else resolveProxyIDForProvider cfg provider) provider url now m"
  by (simp add: resolveReverseProxyRouteForAuth_def Let_def)

lemma proxyIDForAuth_byID:
  "cfg = Some c \<Longrightarrow> auth = Some a \<Longrightarrow> TrimSpace (ID a) \<noteq> [] \<Longrightarrow>
   TrimSpace (lookupStr (ProxyRoutingAuth c) (TrimSpace (ID a))) \<noteq> [] \<Longrightarrow>
   resolveProxyIDForAuth ei cfg auth = TrimSpace (lookupStr (ProxyRoutingAuth c) (TrimSpace (ID a)))"
  by (auto simp: resolveProxyIDForAuth_def Let_def lookupStr_def)


lemma proxyIDForAuth_order:
  "cfg = Some c \<Longrightarrow> auth = Some a \<Longrightarrow> ProxyRoutingAuth c \<noteq> [] \<Longrightarrow>
   resolveProxyIDForAuth ei cfg auth =
     (if TrimSpace (ID a) \<noteq> []
         \<and> TrimSpace (lookupStr (ProxyRoutingAuth c) (TrimSpace (ID a))) \<noteq> []
        then TrimSpace (lookupStr (ProxyRoutingAuth c) (TrimSpace (ID a)))
      else if TrimSpace (ei a) \<noteq> []
         \<and> TrimSpace (lookupStr (ProxyRoutingAuth c) (TrimSpace (ei a))) \<noteq> []
        then TrimSpace (lookupStr (ProxyRoutingAuth c) (TrimSpace (ei a)))
      else if TrimSpace (FileName a) \<noteq> []
         \<and> TrimSpace (lookupStr (ProxyRoutingAuth c) (TrimSpace (FileName a))) \<noteq> []
        then TrimSpace (lookupStr (ProxyRoutingAuth c) (TrimSpace (FileName a)))
      else [])"
  by (simp add: resolveProxyIDForAuth_def Let_def)

lemma proxyIDForAuth_none:
  "cfg = None \<or> auth = None \<or> (\<exists>c. cfg = Some c \<and> ProxyRoutingAuth c = []) \<Longrightarrow>
   resolveProxyIDForAuth ei cfg auth = []"
  by (auto simp: resolveProxyIDForAuth_def split: option.splits)

lemma proxyIDForProvider_eq:
  "cfg = Some c \<Longrightarrow>
   resolveProxyIDForProvider cfg provider =
     (if provider = ''codex'' then Codex (ProxyRouting c)
      else if provider = ''antigravity'' then Antigravity (ProxyRouting c)
      else if provider = ''claude'' then Claude (ProxyRouting c)
      else if provider = ''gemini'' then Gemini (ProxyRouting c)
      else if provider = ''gemini-cli'' then GeminiCLI (ProxyRouting c)
      else if provider = ''vertex'' then Vertex (ProxyRouting c)
      else if provider = ''aistudio'' then AIStudio (ProxyRouting c)
      else if provider = ''qwen'' then Qwen (ProxyRouting c)
      else if provider = ''iflow'' then IFlow (ProxyRouting c)
      else [])"
  by (simp add: resolveProxyIDForProvider_def)

text \<open>
  C7. Route resolution takes the proxy id from the credential-level mapping when that gives
  one and from the provider-level mapping otherwise; with neither, the call is direct and no
  id is reported. The credential-level mapping is read under the credential's trimmed ID,
  then under its index, then under its file name, and the first entry that is not blank
  after trimming is the id; the provider-level mapping is the routing field of the provider.
  Whenever the resolved id is reported banned (an entry whose expiry \<open>now\<close> has not passed),
  the route is the original URL with \<open>proxied = false\<close> and the trimmed id is still reported,
  for \<open>resolveReverseProxyRouteWithID\<close> on any id and so for
  \<open>resolveReverseProxyRouteForAuth\<close>.
\<close>

theorem banned_route_is_direct:
  "resolveReverseProxyRouteForAuth L ei up cfg auth provider url now m =
     resolveReverseProxyRouteWithID L up cfg
       (if resolveProxyIDForAuth ei cfg auth \<noteq> [] then resolveProxyIDForAuth ei cfg auth
        else resolveProxyIDForProvider cfg provider) provider url now m
   \<and> (cfg = Some c \<and> auth = Some a \<and> TrimSpace (ID a) \<noteq> []
        \<and> TrimSpace (lookupStr (ProxyRoutingAuth c) (TrimSpace (ID a))) \<noteq> []
      \<longrightarrow> ProxyID (fst (resolveReverseProxyRouteForAuth L ei up cfg auth provider url now m))
            = TrimSpace (lookupStr (ProxyRoutingAuth c) (TrimSpace (ID a))))
   \<and> (resolveProxyIDForAuth ei cfg auth = []
      \<longrightarrow> ProxyID (fst (resolveReverseProxyRouteForAuth L ei up cfg auth provider url now m))
            = TrimSpace (resolveProxyIDForProvider cfg provider))
   \<and> (resolveProxyIDForAuth ei cfg auth = [] \<and> TrimSpace (resolveProxyIDForProvider cfg provider) = []
      \<longrightarrow> resolveReverseProxyRouteForAuth L ei up cfg auth provider url now m
            = (\<lparr>URL = url, ProxyID = [], Proxied = False\<rparr>, m))
   \<and> (TrimSpace proxyID \<noteq> [] \<and> m (TrimSpace proxyID) = Some until \<and> now \<le> until
      \<longrightarrow> resolveReverseProxyRouteWithID L up cfg proxyID provider url now m
            = (\<lparr>URL = url, ProxyID = TrimSpace proxyID, Proxied = False\<rparr>, m))
   \<and> (fst (isReverseProxyTemporarilyBanned now (TrimSpace proxyID) m)
      \<longrightarrow> fst (resolveReverseProxyRouteWithID L up cfg proxyID provider url now m)
            = \<lparr>URL = url, ProxyID = TrimSpace proxyID, Proxied = False\<rparr>)
   \<and> (cfg = Some c \<and> auth = Some a \<and> ProxyRoutingAuth c \<noteq> []
      \<longrightarrow> resolveProxyIDForAuth ei cfg auth =
            (if TrimSpace (ID a) \<noteq> []
                \<and> TrimSpace (lookupStr (ProxyRoutingAuth c) (TrimSpace (ID a))) \<noteq> []
               then TrimSpace (lookupStr (ProxyRoutingAuth c) (TrimSpace (ID a)))
             else if TrimSpace (ei a) \<noteq> []
                \<and> TrimSpace (lookupStr (ProxyRoutingAuth c) (TrimSpace (ei a))) \<noteq> []
               then TrimSpace (lookupStr (ProxyRoutingAuth c) (TrimSpace (ei a)))
             else if TrimSpace (FileName a) \<noteq> []
                \<and> TrimSpace (lookupStr (ProxyRoutingAuth c) (TrimSpace (FileName a))) \<noteq> []
               then TrimSpace (lookupStr (ProxyRoutingAuth c) (TrimSpace (FileName a)))
             else []))
   \<and> (cfg = None \<or> auth = None \<or> (\<exists>c'. cfg = Some c' \<and> ProxyRoutingAuth c' = [])
      \<longrightarrow> resolveProxyIDForAuth ei cfg auth = [])
   \<and> (cfg = Some c
      \<longrightarrow> resolveProxyIDForProvider cfg provider =
            (if provider = ''codex'' then Codex (ProxyRouting c)
             else if provider = ''antigravity'' then Antigravity (ProxyRouting c)
             else if provider = ''claude'' then Claude (ProxyRouting c)
             else if provider = ''gemini'' then Gemini (ProxyRouting c)
             else if provider = ''gemini-cli'' then GeminiCLI (ProxyRouting c)
             else if provider = ''vertex'' then Vertex (ProxyRouting c)
             else if provider = ''aistudio'' then AIStudio (ProxyRouting c)
             else if provider = ''qwen'' then Qwen (ProxyRouting c)
             else if provider = ''iflow'' then IFlow (ProxyRouting c)
             else []))"
proof (intro conjI impI)
  show "resolveReverseProxyRouteForAuth L ei up cfg auth provider url now m =
     resolveReverseProxyRouteWithID L up cfg
       (if resolveProxyIDForAuth ei cfg auth \<noteq> [] then resolveProxyIDForAuth ei cfg auth
        else resolveProxyIDForProvider cfg provider) provider url now m"
    by (rule routeForAuth_eq)
next
  assume a: "cfg = Some c \<and> auth = Some a \<and> TrimSpace (ID a) \<noteq> []
        \<and> TrimSpace (lookupStr (ProxyRoutingAuth c) (TrimSpace (ID a))) \<noteq> []"
  then have "resolveProxyIDForAuth ei cfg auth
      = TrimSpace (lookupStr (ProxyRoutingAuth c) (TrimSpace (ID a)))"
    using proxyIDForAuth_byID [of cfg c auth a ei] by simp
  with a show "ProxyID (fst (resolveReverseProxyRouteForAuth L ei up cfg auth provider url now m))
            = TrimSpace (lookupStr (ProxyRoutingAuth c) (TrimSpace (ID a)))"
    by (simp add: routeForAuth_eq routeWithID_ProxyID)
next
  assume "resolveProxyIDForAuth ei cfg auth = []"
  then show "ProxyID (fst (resolveReverseProxyRouteForAuth L ei up cfg auth provider url now m))
            = TrimSpace (resolveProxyIDForProvider cfg provider)"
    by (simp add: routeForAuth_eq routeWithID_ProxyID)
next
  assume "resolveProxyIDForAuth ei cfg auth = [] \<and> TrimSpace (resolveProxyIDForProvider cfg provider) = []"
  then show "resolveReverseProxyRouteForAuth L ei up cfg auth provider url now m
            = (\<lparr>URL = url, ProxyID = [], Proxied = False\<rparr>, m)"
    by (simp add: routeForAuth_eq routeWithID_none)
next
  assume "TrimSpace proxyID \<noteq> [] \<and> m (TrimSpace proxyID) = Some until \<and> now \<le> until"
  then show "resolveReverseProxyRouteWithID L up cfg proxyID provider url now m
            = (\<lparr>URL = url, ProxyID = TrimSpace proxyID, Proxied = False\<rparr>, m)"
    using routeWithID_banned [of proxyID m until now L up cfg provider url] by simp
next
  assume "fst (isReverseProxyTemporarilyBanned now (TrimSpace proxyID) m)"
  then show "fst (resolveReverseProxyRouteWithID L up cfg proxyID provider url now m)
            = \<lparr>URL = url, ProxyID = TrimSpace proxyID, Proxied = False\<rparr>"
    by (rule routeWithID_reported_banned)
next
  assume "cfg = Some c \<and> auth = Some a \<and> ProxyRoutingAuth c \<noteq> []"
  then show "resolveProxyIDForAuth ei cfg auth =
            (if TrimSpace (ID a) \<noteq> []
                \<and> TrimSpace (lookupStr (ProxyRoutingAuth c) (TrimSpace (ID a))) \<noteq> []
               then TrimSpace (lookupStr (ProxyRoutingAuth c) (TrimSpace (ID a)))
             else if TrimSpace (ei a) \<noteq> []
                \<and> TrimSpace (lookupStr (ProxyRoutingAuth c) (TrimSpace (ei a))) \<noteq> []
               then TrimSpace (lookupStr (ProxyRoutingAuth c) (TrimSpace (ei a)))
             else if TrimSpace (FileName a) \<noteq> []
                \<and> TrimSpace (lookupStr (ProxyRoutingAuth c) (TrimSpace (FileName a))) \<noteq> []
               then TrimSpace (lookupStr (ProxyRoutingAuth c) (TrimSpace (FileName a)))
             else [])"
    using proxyIDForAuth_order [of cfg c auth a ei] by blast
next
  assume "cfg = None \<or> auth = None \<or> (\<exists>c'. cfg = Some c' \<and> ProxyRoutingAuth c' = [])"
  then show "resolveProxyIDForAuth ei cfg auth = []"
    by (rule proxyIDForAuth_none)
next
  assume "cfg = Some c"
  then show "resolveProxyIDForProvider cfg provider =
            (if provider = ''codex'' then Codex (ProxyRouting c)
             else if provider = ''antigravity'' then Antigravity (ProxyRouting c)
             else if provider = ''claude'' then Claude (ProxyRouting c)
             else if provider = ''gemini'' then Gemini (ProxyRouting c)
             else if provider = ''gemini-cli'' then GeminiCLI (ProxyRouting c)
             else if provider = ''vertex'' then Vertex (ProxyRouting c)
             else if provider = ''aistudio'' then AIStudio (ProxyRouting c)
             else if provider = ''qwen'' then Qwen (ProxyRouting c)
             else if provider = ''iflow'' then IFlow (ProxyRouting c)
             else [])"
    by (rule proxyIDForProvider_eq)
qed

theorem banned_route_is_direct_witness:
  "resolveReverseProxyRouteForAuth exampleLib (authIndexForMatch exampleHash) exampleURLParse
     (Some exampleConfig) None ''codex'' ''https://chatgpt.com/backend-api/codex/responses''
     1000000000 [''deno-1'' \<mapsto> 300000000000]
   = (\<lparr>URL = ''https://chatgpt.com/backend-api/codex/responses'', ProxyID = ''deno-1'',
       Proxied = False\<rparr>, [''deno-1'' \<mapsto> 300000000000])
   \<and> ProxyID (fst (resolveReverseProxyRouteForAuth exampleLib (authIndexForMatch exampleHash)
         exampleURLParse (Some exampleConfig) (Some exampleAuthA) ''codex''
         ''https://chatgpt.com/backend-api/codex/responses''
         1000000000 [''deno-1'' \<mapsto> 300000000000])) = ''deno-auth''
   \<and> resolveReverseProxyRouteForAuth exampleLib (authIndexForMatch exampleHash) exampleURLParse
       (Some exampleConfig) None ''claude'' ''https://chatgpt.com/backend-api/codex/responses''
       1000000000 [''deno-1'' \<mapsto> 300000000000]
     = (\<lparr>URL = ''https://chatgpt.com/backend-api/codex/responses'', ProxyID = [],
         Proxied = False\<rparr>, [''deno-1'' \<mapsto> 300000000000])
   \<and> resolveProxyIDForAuth (authIndexForMatch exampleHash) (Some exampleConfig)
        (Some exampleAuthA) = ''deno-auth''
   \<and> resolveProxyIDForAuth (authIndexForMatch exampleHash) (Some exampleConfig)
        (Some exampleAuthB) = ''worker''
   \<and> resolveProxyIDForAuth (authIndexForMatch exampleHash) (Some exampleConfig)
        (Some exampleAuthC) = ''deno-1''
   \<and> resolveProxyIDForAuth (authIndexForMatch exampleHash) (Some exampleConfig)
        (Some exampleAuthD) = []
   \<and> resolveProxyIDForAuth (authIndexForMatch exampleHash) (Some exampleConfig) None = []
   \<and> resolveProxyIDForProvider (Some exampleConfig) ''codex'' = ''deno-1''
   \<and> ProxyID (fst (resolveReverseProxyRouteForAuth exampleLib (authIndexForMatch exampleHash)
         exampleURLParse (Some exampleConfig) (Some exampleAuthD) ''codex''
         ''https://chatgpt.com/backend-api/codex/responses''
         1000000000 [''deno-1'' \<mapsto> 300000000000])) = ''deno-1''
   \<and> fst (resolveReverseProxyRouteWithID exampleLib exampleURLParse (Some exampleConfig)
          examplePaddedID ''codex'' ''https://chatgpt.com/backend-api/codex/responses'' 1000000000
          [''deno-1'' \<mapsto> 300000000000])
       = \<lparr>URL = ''https://chatgpt.com/backend-api/codex/responses'', ProxyID = ''deno-1'',
           Proxied = False\<rparr>"
proof -
  let ?ei = "authIndexForMatch exampleHash"
  have t: "TrimSpace ''deno-1'' = ''deno-1''" "TrimSpace ''a1'' = ''a1''"
    "TrimSpace ''deno-auth'' = ''deno-auth''" "TrimSpace ''worker'' = ''worker''"
    "TrimSpace ''b1'' = ''b1''" "TrimSpace ''c1'' = ''c1''" "TrimSpace ''d1'' = ''d1''"
    "TrimSpace ''idx-b'' = ''idx-b''" "TrimSpace ''idx-c'' = ''idx-c''"
    "TrimSpace ''auth-a.json'' = ''auth-a.json''" "TrimSpace ''auth-c.json'' = ''auth-c.json''"
    "TrimSpace ''sk-d'' = ''sk-d''" "TrimSpace ''#api_key:sk-d'' = ''#api_key:sk-d''"
    by (simp_all add: TrimSpace_eval)
  have ix: "?ei exampleAuthB = ''idx-b''" "?ei exampleAuthC = ''idx-c''"
    "?ei exampleAuthD = ''#api_key:sk-d''"
    by (simp_all add: authIndexForMatch_def exampleAuthB_def exampleAuthC_def exampleAuthD_def
        exampleHash_def lookupStr_def t)
  have ra: "ProxyRoutingAuth exampleConfig
      = [(''a1'', ''deno-auth''), (''auth-a.json'', ''worker''), (''idx-b'', ''worker''),
         (''auth-c.json'', ''deno-1'')]"
    by (simp add: exampleConfig_def)
  have h5: "TrimSpace ''deno-1'' \<noteq> []
      \<and> [''deno-1'' \<mapsto> (300000000000::int)] (TrimSpace ''deno-1'') = Some 300000000000
      \<and> (1000000000::int) \<le> 300000000000"
    by (simp add: t)
  have h2: "Some exampleConfig = Some exampleConfig \<and> Some exampleAuthA = Some exampleAuthA
      \<and> TrimSpace (ID exampleAuthA) \<noteq> []
      \<and> TrimSpace (lookupStr (ProxyRoutingAuth exampleConfig) (TrimSpace (ID exampleAuthA))) \<noteq> []"
    by (simp add: exampleAuthA_def ra lookupStr_def t)
  have h7: "Some exampleConfig = Some exampleConfig \<and> Some x = Some x
      \<and> ProxyRoutingAuth exampleConfig \<noteq> []" for x :: Auth
    by (simp add: ra)
  have h8: "Some exampleConfig = None \<or> (None :: Auth option) = None
      \<or> (\<exists>c'. Some exampleConfig = Some c' \<and> ProxyRoutingAuth c' = [])"
    by simp
  have h9: "Some exampleConfig = Some exampleConfig" by simp
  note T = banned_route_is_direct
      [where L = exampleLib and ei = ?ei and up = exampleURLParse and cfg = "Some exampleConfig"
         and url = "''https://chatgpt.com/backend-api/codex/responses''"
         and now = 1000000000 and m = "[''deno-1'' \<mapsto> 300000000000]"
         and c = exampleConfig and proxyID = "''deno-1''" and until = 300000000000]
  note c7 = conjunct2 [THEN conjunct2, THEN conjunct2, THEN conjunct2, THEN conjunct2,
      THEN conjunct2]
  note oA = T [where auth = "Some exampleAuthA" and a = exampleAuthA, THEN c7, THEN conjunct1,
      THEN mp, OF h7]
  note oB = T [where auth = "Some exampleAuthB" and a = exampleAuthB, THEN c7, THEN conjunct1,
      THEN mp, OF h7]
  note oC = T [where auth = "Some exampleAuthC" and a = exampleAuthC, THEN c7, THEN conjunct1,
      THEN mp, OF h7]
  note oD = T [where auth = "Some exampleAuthD" and a = exampleAuthD, THEN c7, THEN conjunct1,
      THEN mp, OF h7]
  note oN = T [where auth = None, THEN c7, THEN conjunct2, THEN conjunct1, THEN mp, OF h8]
  note pC = T [where provider = "''codex''", THEN c7, THEN conjunct2, THEN conjunct2, THEN mp,
      OF h9]
  note pL = T [where provider = "''claude''", THEN c7, THEN conjunct2, THEN conjunct2, THEN mp,
      OF h9]
  have authA: "resolveProxyIDForAuth ?ei (Some exampleConfig) (Some exampleAuthA) = ''deno-auth''"
    unfolding oA by (simp add: exampleAuthA_def ra lookupStr_def t)
  have authB: "resolveProxyIDForAuth ?ei (Some exampleConfig) (Some exampleAuthB) = ''worker''"
    unfolding oB ix by (simp add: exampleAuthB_def ra lookupStr_def t)
  have authC: "resolveProxyIDForAuth ?ei (Some exampleConfig) (Some exampleAuthC) = ''deno-1''"
    unfolding oC ix by (simp add: exampleAuthC_def ra lookupStr_def t)
  have authD: "resolveProxyIDForAuth ?ei (Some exampleConfig) (Some exampleAuthD) = []"
    unfolding oD ix by (simp add: exampleAuthD_def ra lookupStr_def t)
  have codex: "resolveProxyIDForProvider (Some exampleConfig) ''codex'' = ''deno-1''"
    unfolding pC by (simp add: exampleConfig_def exampleRouting_def)
  have claude: "resolveProxyIDForProvider (Some exampleConfig) ''claude'' = []"
    unfolding pL by (simp add: exampleConfig_def exampleRouting_def)
  have h4: "resolveProxyIDForAuth ?ei (Some exampleConfig) None = []
      \<and> TrimSpace (resolveProxyIDForProvider (Some exampleConfig) ''claude'') = []"
    by (simp add: oN claude)
  note r1 = T [where auth = None and provider = "''codex''", THEN conjunct1]
  note r5 = T [where auth = None and provider = "''codex''", THEN conjunct2, THEN conjunct2,
      THEN conjunct2, THEN conjunct2, THEN conjunct1, THEN mp, OF h5]
  note r2 = T [where auth = "Some exampleAuthA" and a = exampleAuthA and provider = "''codex''",
      THEN conjunct2, THEN conjunct1, THEN mp, OF h2]
  note r3 = T [where auth = "Some exampleAuthD" and provider = "''codex''",
      THEN conjunct2, THEN conjunct2, THEN conjunct1, THEN mp, OF authD]
  note r4 = T [where auth = None and provider = "''claude''", THEN conjunct2, THEN conjunct2,
      THEN conjunct2, THEN conjunct1, THEN mp, OF h4]
  have a: "resolveReverseProxyRouteForAuth exampleLib ?ei exampleURLParse (Some exampleConfig) None
     ''codex'' ''https://chatgpt.com/backend-api/codex/responses'' 1000000000
     [''deno-1'' \<mapsto> 300000000000]
   = (\<lparr>URL = ''https://chatgpt.com/backend-api/codex/responses'', ProxyID = ''deno-1'',
       Proxied = False\<rparr>, [''deno-1'' \<mapsto> 300000000000])"
    using r1 r5 by (simp add: oN codex t)
  have b: "ProxyID (fst (resolveReverseProxyRouteForAuth exampleLib ?ei exampleURLParse
         (Some exampleConfig) (Some exampleAuthA) ''codex''
         ''https://chatgpt.com/backend-api/codex/responses''
         1000000000 [''deno-1'' \<mapsto> 300000000000])) = ''deno-auth''"
    using r2 by (simp add: exampleAuthA_def ra lookupStr_def t)
  have d: "ProxyID (fst (resolveReverseProxyRouteForAuth exampleLib ?ei exampleURLParse
         (Some exampleConfig) (Some exampleAuthD) ''codex''
         ''https://chatgpt.com/backend-api/codex/responses''
         1000000000 [''deno-1'' \<mapsto> 300000000000])) = ''deno-1''"
    using r3 by (simp add: codex t)
  have t6: "TrimSpace examplePaddedID = ''deno-1''"
    by (simp add: examplePaddedID_def TrimSpace_eval)
  have h6: "fst (isReverseProxyTemporarilyBanned 1000000000 (TrimSpace examplePaddedID)
                   [''deno-1'' \<mapsto> 300000000000])"
    by (simp add: isReverseProxyTemporarilyBanned_def t6 t)
  note r6 = banned_route_is_direct
      [where L = exampleLib and up = exampleURLParse and cfg = "Some exampleConfig"
         and url = "''https://chatgpt.com/backend-api/codex/responses''"
         and now = 1000000000 and m = "[''deno-1'' \<mapsto> 300000000000]"
         and proxyID = "examplePaddedID" and provider = "''codex''",
       THEN conjunct2, THEN conjunct2, THEN conjunct2, THEN conjunct2, THEN conjunct2,
       THEN conjunct1, THEN mp, OF h6]
  have e: "fst (resolveReverseProxyRouteWithID exampleLib exampleURLParse (Some exampleConfig)
          examplePaddedID ''codex'' ''https://chatgpt.com/backend-api/codex/responses'' 1000000000
          [''deno-1'' \<mapsto> 300000000000])
       = \<lparr>URL = ''https://chatgpt.com/backend-api/codex/responses'', ProxyID = ''deno-1'',
           Proxied = False\<rparr>"
    using r6 by (simp add: t6)
  from a b r4 authA authB authC authD oN codex d e show ?thesis by (intro conjI)
qed

section \<open>Facts about the bridge URL\<close>






section \<open>Facts about the quota detector\<close>








































section \<open>Facts about status errors\<close>


lemma timeSub_pos: "u < t \<Longrightarrow> 0 < timeSub t u"
  by (simp add: timeSub_def Let_def)

lemma fetch_hint_positive:
  "fetchCodexQuotaCooldownHint e auth w = (Some hint, w') \<Longrightarrow> 0 < hintRetryAfter hint"
  by (auto simp: fetchCodexQuotaCooldownHint_def Let_def timeSub_pos
      split: option.splits prod.splits sum.splits if_splits)

lemma fetch_world:
  "fetchCodexQuotaCooldownHint e auth w = (h, w') \<Longrightarrow>
   bannedTill w' = bannedTill w \<and> (calls w' = calls w \<or> calls w' = calls w @ [codexUsageURL])"
  by (auto simp: fetchCodexQuotaCooldownHint_def Do_def Let_def
      split: option.splits prod.splits sum.splits if_splits)

lemma statusErr_no_hint:
  "fetchCodexQuotaCooldownHint e auth w = (None, w') \<Longrightarrow>
   newCodexStatusErr e auth 429 body headers w =
     (\<lparr>code = 429, msg = body,
       retryAfter = parseRetryAfterHeader (parseTime e) (clock w) headers, quotaReason = []\<rparr>, w')"
  by (simp add: newCodexStatusErr_def Let_def split: option.splits)

lemma statusErr_hint:
  "fetchCodexQuotaCooldownHint e auth w = (Some hint, w') \<Longrightarrow>
   newCodexStatusErr e auth 429 body headers w =
     (\<lparr>code = 429, msg = body, retryAfter = Some (hintRetryAfter hint),
       quotaReason = hintReason hint\<rparr>, w')"
  using fetch_hint_positive [of e auth w hint w']
  by (simp add: newCodexStatusErr_def Let_def split: option.splits)





lemmas example_eval =
  exampleEnv_def exampleWorld_def exampleAuthA_def exampleAuthB_def codexCreds_def lookupStr_def
  TrimSpace_eval Do_def exampleRoundTrip_def codexUsageURL_def non2xx_def exampleParseJSON_def
  exampleUsageBody_def quoted_def exampleUsageDoc_def zeroTime_def timeSub_def

lemma example_retry_after:
  "parseRetryAfterHeader pt now [(''Retry-After'', [''120''])] = Some 120000000000"
  by (simp add: parseRetryAfterHeader_def headerGet_def TrimSpace_eval Atoi_def
      digitValue_def wrap64_def Second_def Let_def)





section \<open>Facts about the executor\<close>

lemma statusErr_effect:
  assumes "newCodexStatusErr e auth s b h w = (sErr, w')"
  shows "code sErr = s \<and> msg sErr = b \<and> bannedTill w' = bannedTill w
         \<and> (calls w' = calls w \<or> calls w' = calls w @ [codexUsageURL])"
proof (cases "s = 429")
  case False
  with assms show ?thesis by (auto simp: newCodexStatusErr_def)
next
  case True
  obtain hint w1 where f: "fetchCodexQuotaCooldownHint e auth w = (hint, w1)"
    by (cases "fetchCodexQuotaCooldownHint e auth w")
  from fetch_world [OF f] have fw: "bannedTill w1 = bannedTill w"
    "calls w1 = calls w \<or> calls w1 = calls w @ [codexUsageURL]" by simp_all
  show ?thesis
  proof (cases hint)
    case None
    with assms True f statusErr_no_hint [of e auth w w1 b h] fw show ?thesis by auto
  next
    case (Some x)
    with assms True f statusErr_hint [of e auth w x w1 b h] fw show ?thesis by auto
  qed
qed

lemma surface_effect:
  assumes "surfaceStatusErr e auth resp w = (res, w')"
  shows "(\<exists>sErr. res = ExecStatusErr sErr \<and> code sErr = StatusCode resp \<and> msg sErr = Body resp)
         \<and> bannedTill w' = bannedTill w
         \<and> (calls w' = calls w \<or> calls w' = calls w @ [codexUsageURL])"
proof -
  obtain sErr w1 where n: "newCodexStatusErr e auth (StatusCode resp) (Body resp) (Header resp) w
      = (sErr, w1)"
    by (cases "newCodexStatusErr e auth (StatusCode resp) (Body resp) (Header resp) w")
  with assms have "res = ExecStatusErr sErr" "w' = w1"
    by (simp_all add: surfaceStatusErr_def)
  with statusErr_effect [OF n] show ?thesis by simp
qed

lemma isBanned_keeps:
  "m k = Some u \<Longrightarrow> now \<le> u \<Longrightarrow> snd (isReverseProxyTemporarilyBanned now pid m) k = Some u"
  by (auto simp: isReverseProxyTemporarilyBanned_def Let_def split: option.splits)

lemma applyHeaders_keeps:
  "m k = Some u \<Longrightarrow> now \<le> u \<Longrightarrow> applyReverseProxyHeaders ei cfg auth p now m k = Some u"
  by (auto simp: applyReverseProxyHeaders_def Let_def isBanned_keeps split: option.splits)

lemma routeWithID_proxied:
  "resolveReverseProxyRouteWithID L up cfg pid pr url now m = (route, b) \<Longrightarrow> Proxied route \<Longrightarrow>
   ProxyID route = TrimSpace pid \<and> TrimSpace pid \<noteq> [] \<and> URL route \<noteq> url"
  by (auto simp: resolveReverseProxyRouteWithID_def Let_def split: prod.splits if_splits)

lemma shouldBan_iff:
  "shouldBanReverseProxyOnError L s body \<longleftrightarrow>
     s \<in> {404, 502, 503, 504, 520, 521, 522, 523, 524}
     \<or> (\<exists>p \<in> set (requestDetailMarker # banPatterns). Contains (ToLower L (TrimSpace body)) p)"
proof -
  have "\<not> Contains [] p" if "p \<in> set (requestDetailMarker # banPatterns)" for p
    using that by (auto simp: requestDetailMarker_def banPatterns_def)
  then show ?thesis
    by (auto simp: shouldBanReverseProxyOnError_def Let_def list_ex_iff)
qed


lemma directRetry_effect:
  assumes rq: "requestErr e originalURL = None"
    and pid: "TrimSpace (ProxyID route) = ProxyID route" "ProxyID route \<noteq> []"
    and ex: "executeDirectRetry e cfg auth route originalURL resp w = (res, w')"
  shows "(\<exists>u. bannedTill w' (ProxyID route) = Some u \<and> clock w + reverseProxyBanTTL \<le> u)
     \<and> (outcome (roundTrip e (length (calls w)) originalURL) = Inl err
          \<longrightarrow> res = ExecError err \<and> calls w' = calls w @ [originalURL])
     \<and> (outcome (roundTrip e (length (calls w)) originalURL) = Inr resp2
          \<and> non2xx (StatusCode resp2)
          \<longrightarrow> (\<exists>sErr. res = ExecStatusErr sErr \<and> code sErr = StatusCode resp2
                        \<and> msg sErr = Body resp2)
              \<and> (calls w' = calls w @ [originalURL]
                  \<or> calls w' = calls w @ [originalURL, codexUsageURL]))
     \<and> (outcome (roundTrip e (length (calls w)) originalURL) = Inr resp2
          \<and> \<not> non2xx (StatusCode resp2)
          \<longrightarrow> calls w' = calls w @ [originalURL])"
proof -
  let ?b4 = "banReverseProxyTemporarily (clock w) (ProxyID route) ''codex'' (StatusCode resp)
               (Body resp) (bannedTill w)"
  let ?b5 = "applyReverseProxyHeaders (indexOf e) cfg auth ''codex'' (clock w) ?b4"
  let ?r = "roundTrip e (length (calls w)) originalURL"
  let ?w6 = "w\<lparr>bannedTill := ?b5, clock := clock w + elapsed ?r,
               calls := calls w @ [originalURL]\<rparr>"
  from pid have ne: "TrimSpace (ProxyID route) \<noteq> []" by simp
  from ban_stored [OF ne, of "clock w" "''codex''" "StatusCode resp" "Body resp" "bannedTill w"]
  obtain u where u: "?b4 (ProxyID route) = Some u" "clock w + reverseProxyBanTTL \<le> u"
    unfolding pid(1) by (auto split: option.splits)
  have "0 \<le> reverseProxyBanTTL" by (simp add: reverseProxyBanTTL_def Minute_def Second_def)
  with u(2) have "clock w \<le> u" by simp
  with u(1) have b5: "?b5 (ProxyID route) = Some u"
    by (rule applyHeaders_keeps [where m = ?b4 and k = "ProxyID route"])
  have unf: "executeDirectRetry e cfg auth route originalURL resp w =
      (case outcome ?r of
         Inl err \<Rightarrow> (ExecError err, ?w6)
       | Inr resp2 \<Rightarrow> if non2xx (StatusCode resp2) then surfaceStatusErr e auth resp2 ?w6
                       else executeCompleted e resp2 ?w6)"
    using rq by (simp add: executeDirectRetry_def Do_def withBan_def Let_def split: sum.splits)
  show ?thesis
  proof (cases "outcome ?r")
    case (Inl x)
    with ex unf have "res = ExecError x" "w' = ?w6" by simp_all
    with Inl b5 u(2) show ?thesis by simp
  next
    case (Inr r2)
    show ?thesis
    proof (cases "non2xx (StatusCode r2)")
      case True
      with ex unf Inr have "surfaceStatusErr e auth r2 ?w6 = (res, w')" by simp
      from surface_effect [OF this] Inr True b5 u(2) show ?thesis by auto
    next
      case False
      with ex unf Inr have "executeCompleted e r2 ?w6 = (res, w')" by simp
      then have "w' = ?w6" by (auto simp: executeCompleted_def split: option.splits)
      with Inr False b5 u(2) show ?thesis by auto
    qed
  qed
qed

text \<open>
  C2. Take a call of \<open>Execute\<close> (not the compact variant; the request can be built for
  the rewritten URL and for the original one) whose route is proxied and whose first
  response is not 2xx. If the status or the body satisfies the ban predicate (a status among
  404, 502, 503, 504, 520 to 524, or one of the five proxy-failure markers of the source in
  the trimmed body lower-cased by \<open>strings.ToLower\<close>), the proxy is banned for at least five minutes from that moment and
  exactly one further request goes out, to the original URL: a transport error of that retry
  is returned as it is, a second status outside 2xx is returned with its own status and
  body, and nothing else is requested but the usage lookup that builds a 429 error. If the
  predicate does not hold, the first status and body are returned, no request goes to the
  original URL and no ban is placed.
\<close>

theorem Execute_direct_retry:
  "(shouldBanReverseProxyOnError L s body \<longleftrightarrow>
      s \<in> {404, 502, 503, 504, 520, 521, 522, 523, 524}
      \<or> Contains (ToLower L (TrimSpace body))
           [CHR 0xE8, CHR 0xAF, CHR 0xB7, CHR 0xE6, CHR 0xB1, CHR 0x82,
            CHR 0xE8, CHR 0xAF, CHR 0xA6, CHR 0xE6, CHR 0x83, CHR 0x85]
      \<or> Contains (ToLower L (TrimSpace body)) ''request detail''
      \<or> Contains (ToLower L (TrimSpace body)) ''status 404''
      \<or> Contains (ToLower L (TrimSpace body)) ([CHR 0x22] @ ''status'' @ [CHR 0x22] @ '':404'')
      \<or> Contains (ToLower L (TrimSpace body)) ''/v1/v1/messages'')
   \<and> (alt \<noteq> ''responses/compact'' \<and> thinkingErr e = None
       \<and> originalURL = TrimSuffix (if snd (codexCreds auth) = []
                                    then ''https://chatgpt.com/backend-api/codex''
                                    else snd (codexCreds auth)) ''/'' @ ''/responses''
       \<and> resolveReverseProxyRouteForAuth (lib e) (indexOf e) (parseURL e) cfg auth ''codex'' originalURL
            (clock w) (bannedTill w) = (route, b1)
       \<and> Proxied route \<and> requestErr e (URL route) = None \<and> requestErr e originalURL = None
       \<and> roundTrip e (length (calls w)) (URL route) = r1 \<and> outcome r1 = Inr resp1
       \<and> non2xx (StatusCode resp1)
       \<and> Execute e cfg auth alt w = (res, w')
      \<longrightarrow> URL route \<noteq> originalURL
          \<and> (shouldBanReverseProxyOnError (lib e) (StatusCode resp1) (Body resp1) \<longrightarrow>
                (\<exists>u. bannedTill w' (ProxyID route) = Some u
                      \<and> clock w + elapsed r1 + 5 * 60 * 1000000000 \<le> u)
              \<and> (outcome (roundTrip e (Suc (length (calls w))) originalURL) = Inl err
                   \<longrightarrow> res = ExecError err \<and> calls w' = calls w @ [URL route, originalURL])
              \<and> (outcome (roundTrip e (Suc (length (calls w))) originalURL) = Inr resp2
                   \<and> non2xx (StatusCode resp2)
                   \<longrightarrow> (\<exists>sErr. res = ExecStatusErr sErr \<and> code sErr = StatusCode resp2
                                 \<and> msg sErr = Body resp2)
                       \<and> (calls w' = calls w @ [URL route, originalURL]
                           \<or> calls w' = calls w @ [URL route, originalURL, codexUsageURL]))
              \<and> (outcome (roundTrip e (Suc (length (calls w))) originalURL) = Inr resp2
                   \<and> \<not> non2xx (StatusCode resp2)
                   \<longrightarrow> calls w' = calls w @ [URL route, originalURL]))
          \<and> (\<not> shouldBanReverseProxyOnError (lib e) (StatusCode resp1) (Body resp1) \<longrightarrow>
                (\<exists>sErr. res = ExecStatusErr sErr \<and> code sErr = StatusCode resp1
                         \<and> msg sErr = Body resp1)
              \<and> (calls w' = calls w @ [URL route]
                  \<or> calls w' = calls w @ [URL route, codexUsageURL])
              \<and> bannedTill w'
                   = applyReverseProxyHeaders (indexOf e) cfg auth ''codex'' (clock w) b1))"
proof (intro conjI impI)
  show "shouldBanReverseProxyOnError L s body \<longleftrightarrow>
      s \<in> {404, 502, 503, 504, 520, 521, 522, 523, 524}
      \<or> Contains (ToLower L (TrimSpace body))
           [CHR 0xE8, CHR 0xAF, CHR 0xB7, CHR 0xE6, CHR 0xB1, CHR 0x82,
            CHR 0xE8, CHR 0xAF, CHR 0xA6, CHR 0xE6, CHR 0x83, CHR 0x85]
      \<or> Contains (ToLower L (TrimSpace body)) ''request detail''
      \<or> Contains (ToLower L (TrimSpace body)) ''status 404''
      \<or> Contains (ToLower L (TrimSpace body)) ([CHR 0x22] @ ''status'' @ [CHR 0x22] @ '':404'')
      \<or> Contains (ToLower L (TrimSpace body)) ''/v1/v1/messages''"
    unfolding shouldBan_iff by (simp add: requestDetailMarker_def banPatterns_def)
next
  assume H: "alt \<noteq> ''responses/compact'' \<and> thinkingErr e = None
       \<and> originalURL = TrimSuffix (if snd (codexCreds auth) = []
                                    then ''https://chatgpt.com/backend-api/codex''
                                    else snd (codexCreds auth)) ''/'' @ ''/responses''
       \<and> resolveReverseProxyRouteForAuth (lib e) (indexOf e) (parseURL e) cfg auth ''codex'' originalURL
            (clock w) (bannedTill w) = (route, b1)
       \<and> Proxied route \<and> requestErr e (URL route) = None \<and> requestErr e originalURL = None
       \<and> roundTrip e (length (calls w)) (URL route) = r1 \<and> outcome r1 = Inr resp1
       \<and> non2xx (StatusCode resp1)
       \<and> Execute e cfg auth alt w = (res, w')"
  from H have alt: "alt \<noteq> ''responses/compact''" and th: "thinkingErr e = None"
    and ou: "originalURL = TrimSuffix (if snd (codexCreds auth) = []
                                    then ''https://chatgpt.com/backend-api/codex''
                                    else snd (codexCreds auth)) ''/'' @ ''/responses''"
    and rt: "resolveReverseProxyRouteForAuth (lib e) (indexOf e) (parseURL e) cfg auth ''codex'' originalURL
            (clock w) (bannedTill w) = (route, b1)"
    and px: "Proxied route" and rq1: "requestErr e (URL route) = None"
    and rq2: "requestErr e originalURL = None"
    and r1: "roundTrip e (length (calls w)) (URL route) = r1" and o1: "outcome r1 = Inr resp1"
    and n1: "non2xx (StatusCode resp1)" and ex: "Execute e cfg auth alt w = (res, w')"
    by blast+
  let ?b2 = "applyReverseProxyHeaders (indexOf e) cfg auth ''codex'' (clock w) b1"
  let ?w3 = "w\<lparr>bannedTill := ?b2, clock := clock w + elapsed r1,
               calls := calls w @ [URL route]\<rparr>"
  from rt [unfolded routeForAuth_eq] px
  have p: "ProxyID route
             = TrimSpace (if resolveProxyIDForAuth (indexOf e) cfg auth \<noteq> []
                          then resolveProxyIDForAuth (indexOf e) cfg auth
                          else resolveProxyIDForProvider cfg ''codex'')"
    "ProxyID route \<noteq> []" "URL route \<noteq> originalURL"
    using routeWithID_proxied by (metis, metis, metis)
  have pid: "TrimSpace (ProxyID route) = ProxyID route"
    unfolding p(1) by simp
  have unf: "Execute e cfg auth alt w =
      (if shouldBanReverseProxyOnError (lib e) (StatusCode resp1) (Body resp1)
       then executeDirectRetry e cfg auth route originalURL resp1 ?w3
       else surfaceStatusErr e auth resp1 ?w3)"
    using alt th rq1 r1 o1 n1 px rt [unfolded ou]
    by (simp add: Execute_def Do_def withBan_def Let_def ou [symmetric])
  show "URL route \<noteq> originalURL" by (rule p(3))
  {
    assume sb: "shouldBanReverseProxyOnError (lib e) (StatusCode resp1) (Body resp1)"
    with ex unf have d: "executeDirectRetry e cfg auth route originalURL resp1 ?w3 = (res, w')"
      by simp
    note E = directRetry_effect [OF rq2 pid p(2) d, of err resp2]
    from E show "\<exists>u. bannedTill w' (ProxyID route) = Some u
                      \<and> clock w + elapsed r1 + 5 * 60 * 1000000000 \<le> u"
      by (simp add: reverseProxyBanTTL_def Minute_def Second_def)
    {
      assume "outcome (roundTrip e (Suc (length (calls w))) originalURL) = Inl err"
      with E show "res = ExecError err" "calls w' = calls w @ [URL route, originalURL]"
        by simp_all
    }
    {
      assume a: "outcome (roundTrip e (Suc (length (calls w))) originalURL) = Inr resp2
                   \<and> non2xx (StatusCode resp2)"
      with E show "\<exists>sErr. res = ExecStatusErr sErr \<and> code sErr = StatusCode resp2
                                 \<and> msg sErr = Body resp2"
        by simp
      from a E show "calls w' = calls w @ [URL route, originalURL]
                           \<or> calls w' = calls w @ [URL route, originalURL, codexUsageURL]"
        by simp
    }
    {
      assume "outcome (roundTrip e (Suc (length (calls w))) originalURL) = Inr resp2
                   \<and> \<not> non2xx (StatusCode resp2)"
      with E show "calls w' = calls w @ [URL route, originalURL]" by simp
    }
  }
  {
    assume "\<not> shouldBanReverseProxyOnError (lib e) (StatusCode resp1) (Body resp1)"
    with ex unf have "surfaceStatusErr e auth resp1 ?w3 = (res, w')" by simp
    note S = surface_effect [OF this]
    from S show "\<exists>sErr. res = ExecStatusErr sErr \<and> code sErr = StatusCode resp1
                         \<and> msg sErr = Body resp1" by simp
    from S show "calls w' = calls w @ [URL route]
                  \<or> calls w' = calls w @ [URL route, codexUsageURL]" by simp
    from S show "bannedTill w'
                   = applyReverseProxyHeaders (indexOf e) cfg auth ''codex'' (clock w) b1"
      by simp
  }
qed

lemmas route_eval =
  resolveReverseProxyRouteForAuth_def resolveProxyIDForAuth_def resolveProxyIDForProvider_def
  resolveReverseProxyRouteWithID_def isReverseProxyTemporarilyBanned_def
  resolveReverseProxyURLWithID_def findReverseProxyByID_def buildReverseProxyWorkerURL_def
  applyReverseProxyHeaders_def exampleConfig_def exampleRouting_def exampleProxyDeno_def
  exampleProxyAuth_def exampleProxyWorker_def exampleURLParse_def hostURL_def TrimSuffix_def
  HasSuffix_def HasPrefix_def Let_def

lemma example_route_none:
  "resolveReverseProxyRouteForAuth (lib exampleEnv) (indexOf exampleEnv) (parseURL exampleEnv) (Some exampleConfig)
     None ''codex'' ''https://chatgpt.com/backend-api/codex/responses'' (clock exampleWorld)
     (bannedTill exampleWorld)
   = (\<lparr>URL = ''https://funny-starfish-28.lauracadano-max.deno.net/codex/backend-api/codex/responses'',
       ProxyID = ''deno-1'', Proxied = True\<rparr>, Map.empty)"
  by (simp add: route_eval example_eval)

lemma example_execute_none:
  "Execute exampleEnv (Some exampleConfig) None [] exampleWorld
   = (ExecStatusErr \<lparr>code = 429, msg = ''too many requests'', retryAfter = Some 120000000000,
                     quotaReason = []\<rparr>,
      \<lparr>bannedTill = [''deno-1'' \<mapsto> 301000000000], clock = 2000000000,
        calls = [''https://funny-starfish-28.lauracadano-max.deno.net/codex/backend-api/codex/responses'',
                 ''https://chatgpt.com/backend-api/codex/responses'']\<rparr>)"
  by (simp add: Execute_def executeDirectRetry_def surfaceStatusErr_def withBan_def
      shouldBanReverseProxyOnError_def banReverseProxyTemporarily_def reverseProxyBanTTL_def
      Minute_def Second_def newCodexStatusErr_def fetchCodexQuotaCooldownHint_def
      example_retry_after route_eval example_eval)

lemma example_route_auth:
  "resolveReverseProxyRouteForAuth (lib exampleEnv) (indexOf exampleEnv) (parseURL exampleEnv) (Some exampleConfig)
     (Some exampleAuthA) ''codex'' ''https://chatgpt.com/backend-api/codex/responses''
     (clock exampleWorld) (bannedTill exampleWorld)
   = (\<lparr>URL = ''https://auth-route.deno.dev/codex/backend-api/codex/responses'',
       ProxyID = ''deno-auth'', Proxied = True\<rparr>, Map.empty)"
  by (simp add: route_eval example_eval)

lemma example_execute_auth:
  "Execute exampleEnv (Some exampleConfig) (Some exampleAuthA) [] exampleWorld
   = (ExecStatusErr \<lparr>code = 400, msg = ''invalid model'', retryAfter = None, quotaReason = []\<rparr>,
      \<lparr>bannedTill = Map.empty, clock = 1000000000,
        calls = [''https://auth-route.deno.dev/codex/backend-api/codex/responses'']\<rparr>)"
  by (simp add: Execute_def executeDirectRetry_def surfaceStatusErr_def withBan_def
      shouldBanReverseProxyOnError_def requestDetailMarker_def banPatterns_def ToLower_def
      isASCII_def toLowerChar_def newCodexStatusErr_def route_eval example_eval)

theorem Execute_direct_retry_witness:
  "Execute exampleEnv (Some exampleConfig) None [] exampleWorld
   = (ExecStatusErr \<lparr>code = 429, msg = ''too many requests'', retryAfter = Some 120000000000,
                     quotaReason = []\<rparr>,
      \<lparr>bannedTill = [''deno-1'' \<mapsto> 301000000000], clock = 2000000000,
        calls = [''https://funny-starfish-28.lauracadano-max.deno.net/codex/backend-api/codex/responses'',
                 ''https://chatgpt.com/backend-api/codex/responses'']\<rparr>)
   \<and> shouldBanReverseProxyOnError exampleLib 502 ''bad gateway''
   \<and> (\<exists>u. [''deno-1'' \<mapsto> (301000000000::int)] ''deno-1'' = Some u \<and> 301000000000 \<le> u)
   \<and> Execute exampleEnv (Some exampleConfig) (Some exampleAuthA) [] exampleWorld
     = (ExecStatusErr \<lparr>code = 400, msg = ''invalid model'', retryAfter = None, quotaReason = []\<rparr>,
        \<lparr>bannedTill = Map.empty, clock = 1000000000,
          calls = [''https://auth-route.deno.dev/codex/backend-api/codex/responses'']\<rparr>)
   \<and> \<not> shouldBanReverseProxyOnError exampleLib 400 ''invalid model''
   \<and> ''https://auth-route.deno.dev/codex/backend-api/codex/responses''
       \<noteq> ''https://chatgpt.com/backend-api/codex/responses''
   \<and> shouldBanReverseProxyOnError exampleLib 500 ''  Upstream REQUEST Detail missing''
   \<and> shouldBanReverseProxyOnError exampleLib 500 (''proxy: '' @ requestDetailMarker)
   \<and> shouldBanReverseProxyOnError exampleLib 500 ''upstream answered with STATUS 404 ''
   \<and> shouldBanReverseProxyOnError exampleLib 500
         (''{'' @ [CHR 0x22] @ ''Status'' @ [CHR 0x22] @ '':404}'')
   \<and> shouldBanReverseProxyOnError exampleLib 500 ''POST /V1/v1/messages failed''
   \<and> \<not> shouldBanReverseProxyOnError exampleLib 500 ''   ''
   \<and> \<not> shouldBanReverseProxyOnError exampleLib 500 ''internal error''"
proof -
  let ?orig = "''https://chatgpt.com/backend-api/codex/responses''"
  let ?p1 = "''https://funny-starfish-28.lauracadano-max.deno.net/codex/backend-api/codex/responses''"
  let ?p2 = "''https://auth-route.deno.dev/codex/backend-api/codex/responses''"
  let ?r1 = "\<lparr>StatusCode = 502, Body = ''bad gateway'', Header = []\<rparr>"
  let ?r2 = "\<lparr>StatusCode = 429, Body = ''too many requests'',
              Header = [(''Retry-After'', [''120''])]\<rparr>"
  let ?r3 = "\<lparr>StatusCode = 400, Body = ''invalid model'', Header = []\<rparr>"
  have le: "lib exampleEnv = exampleLib" by (simp add: exampleEnv_def)
  have sb: "shouldBanReverseProxyOnError (lib exampleEnv) (StatusCode ?r1) (Body ?r1)"
    by (simp add: shouldBanReverseProxyOnError_def)
  have nsb: "\<not> shouldBanReverseProxyOnError (lib exampleEnv) (StatusCode ?r3) (Body ?r3)"
    by (simp add: shouldBanReverseProxyOnError_def requestDetailMarker_def banPatterns_def
        ToLower_def isASCII_def toLowerChar_def TrimSpace_eval HasPrefix_def)
  have ou: "?orig = TrimSuffix (if snd (codexCreds None) = []
                                then ''https://chatgpt.com/backend-api/codex''
                                else snd (codexCreds None)) ''/'' @ ''/responses''"
    "?orig = TrimSuffix (if snd (codexCreds (Some exampleAuthA)) = []
                          then ''https://chatgpt.com/backend-api/codex''
                          else snd (codexCreds (Some exampleAuthA))) ''/'' @ ''/responses''"
    by (simp_all add: codexCreds_def exampleAuthA_def lookupStr_def TrimSuffix_def HasSuffix_def)
  have rt: "roundTrip exampleEnv (length (calls exampleWorld)) ?p1
              = \<lparr>elapsed = 1000000000, outcome = Inr ?r1\<rparr>"
    "roundTrip exampleEnv (length (calls exampleWorld)) ?p2
              = \<lparr>elapsed = 1000000000, outcome = Inr ?r3\<rparr>"
    "outcome (roundTrip exampleEnv (Suc (length (calls exampleWorld))) ?orig) = Inr ?r2"
    by (simp_all add: exampleEnv_def exampleRoundTrip_def)
  have misc: "[] \<noteq> ''responses/compact''" "thinkingErr exampleEnv = None"
    "requestErr exampleEnv ?p1 = None" "requestErr exampleEnv ?p2 = None"
    "requestErr exampleEnv ?orig = None"
    by (simp_all add: exampleEnv_def)
  have HA: "[] \<noteq> ''responses/compact'' \<and> thinkingErr exampleEnv = None
       \<and> ?orig = TrimSuffix (if snd (codexCreds None) = []
                              then ''https://chatgpt.com/backend-api/codex''
                              else snd (codexCreds None)) ''/'' @ ''/responses''
       \<and> resolveReverseProxyRouteForAuth (lib exampleEnv) (indexOf exampleEnv) (parseURL exampleEnv)
            (Some exampleConfig) None ''codex'' ?orig (clock exampleWorld) (bannedTill exampleWorld)
          = (\<lparr>URL = ?p1, ProxyID = ''deno-1'', Proxied = True\<rparr>, Map.empty)
       \<and> Proxied \<lparr>URL = ?p1, ProxyID = ''deno-1'', Proxied = True\<rparr>
       \<and> requestErr exampleEnv (URL \<lparr>URL = ?p1, ProxyID = ''deno-1'', Proxied = True\<rparr>) = None
       \<and> requestErr exampleEnv ?orig = None
       \<and> roundTrip exampleEnv (length (calls exampleWorld))
            (URL \<lparr>URL = ?p1, ProxyID = ''deno-1'', Proxied = True\<rparr>)
          = \<lparr>elapsed = 1000000000, outcome = Inr ?r1\<rparr>
       \<and> outcome \<lparr>elapsed = 1000000000, outcome = Inr ?r1\<rparr> = Inr ?r1
       \<and> non2xx (StatusCode ?r1)
       \<and> Execute exampleEnv (Some exampleConfig) None [] exampleWorld
          = (ExecStatusErr \<lparr>code = 429, msg = ''too many requests'',
                            retryAfter = Some 120000000000, quotaReason = []\<rparr>,
             \<lparr>bannedTill = [''deno-1'' \<mapsto> 301000000000], clock = 2000000000,
               calls = [?p1, ?orig]\<rparr>)"
    using ou(1) example_route_none rt(1) misc example_execute_none
    by (simp add: non2xx_def)
  have HB: "[] \<noteq> ''responses/compact'' \<and> thinkingErr exampleEnv = None
       \<and> ?orig = TrimSuffix (if snd (codexCreds (Some exampleAuthA)) = []
                              then ''https://chatgpt.com/backend-api/codex''
                              else snd (codexCreds (Some exampleAuthA))) ''/'' @ ''/responses''
       \<and> resolveReverseProxyRouteForAuth (lib exampleEnv) (indexOf exampleEnv) (parseURL exampleEnv)
            (Some exampleConfig) (Some exampleAuthA) ''codex'' ?orig (clock exampleWorld)
            (bannedTill exampleWorld)
          = (\<lparr>URL = ?p2, ProxyID = ''deno-auth'', Proxied = True\<rparr>, Map.empty)
       \<and> Proxied \<lparr>URL = ?p2, ProxyID = ''deno-auth'', Proxied = True\<rparr>
       \<and> requestErr exampleEnv (URL \<lparr>URL = ?p2, ProxyID = ''deno-auth'', Proxied = True\<rparr>) = None
       \<and> requestErr exampleEnv ?orig = None
       \<and> roundTrip exampleEnv (length (calls exampleWorld))
            (URL \<lparr>URL = ?p2, ProxyID = ''deno-auth'', Proxied = True\<rparr>)
          = \<lparr>elapsed = 1000000000, outcome = Inr ?r3\<rparr>
       \<and> outcome \<lparr>elapsed = 1000000000, outcome = Inr ?r3\<rparr> = Inr ?r3
       \<and> non2xx (StatusCode ?r3)
       \<and> Execute exampleEnv (Some exampleConfig) (Some exampleAuthA) [] exampleWorld
          = (ExecStatusErr \<lparr>code = 400, msg = ''invalid model'', retryAfter = None,
                            quotaReason = []\<rparr>,
             \<lparr>bannedTill = Map.empty, clock = 1000000000, calls = [?p2]\<rparr>)"
    using ou(2) example_route_auth rt(2) misc example_execute_auth
    by (simp add: non2xx_def)
  note A = Execute_direct_retry [THEN conjunct2, THEN mp, OF HA, THEN conjunct2, THEN conjunct1,
      THEN mp, OF sb, THEN conjunct1]
  note B = Execute_direct_retry [THEN conjunct2, THEN mp, OF HB, THEN conjunct1]
  have a: "\<exists>u. [''deno-1'' \<mapsto> (301000000000::int)] ''deno-1'' = Some u \<and> 301000000000 \<le> u"
    using A by (simp add: exampleWorld_def)
  have b: "?p2 \<noteq> ?orig" using B by simp
  from sb have sb': "shouldBanReverseProxyOnError exampleLib 502 ''bad gateway''"
    by (simp add: le)
  from nsb have nsb': "\<not> shouldBanReverseProxyOnError exampleLib 400 ''invalid model''"
    by (simp add: le)
  have m1: "shouldBanReverseProxyOnError exampleLib 500 ''  Upstream REQUEST Detail missing''"
    by (rule Execute_direct_retry [THEN conjunct1, THEN iffD2])
       (simp add: ToLower_def isASCII_def toLowerChar_def TrimSpace_eval HasPrefix_def)
  have m2: "shouldBanReverseProxyOnError exampleLib 500 (''proxy: '' @ requestDetailMarker)"
    by (rule Execute_direct_retry [THEN conjunct1, THEN iffD2])
       (simp add: requestDetailMarker_def ToLower_def isASCII_def exampleLib_def TrimSpace_eval
          HasPrefix_def)
  have m3: "shouldBanReverseProxyOnError exampleLib 500 ''upstream answered with STATUS 404 ''"
    by (rule Execute_direct_retry [THEN conjunct1, THEN iffD2])
       (simp add: ToLower_def isASCII_def toLowerChar_def TrimSpace_eval HasPrefix_def)
  have m4: "shouldBanReverseProxyOnError exampleLib 500
         (''{'' @ [CHR 0x22] @ ''Status'' @ [CHR 0x22] @ '':404}'')"
    by (rule Execute_direct_retry [THEN conjunct1, THEN iffD2])
       (simp add: ToLower_def isASCII_def toLowerChar_def TrimSpace_eval HasPrefix_def)
  have m5: "shouldBanReverseProxyOnError exampleLib 500 ''POST /V1/v1/messages failed''"
    by (rule Execute_direct_retry [THEN conjunct1, THEN iffD2])
       (simp add: ToLower_def isASCII_def toLowerChar_def TrimSpace_eval HasPrefix_def)
  have m6: "\<not> shouldBanReverseProxyOnError exampleLib 500 ''   ''"
    unfolding Execute_direct_retry [THEN conjunct1]
    by (simp add: ToLower_def isASCII_def toLowerChar_def TrimSpace_eval HasPrefix_def)
  have m7: "\<not> shouldBanReverseProxyOnError exampleLib 500 ''internal error''"
    unfolding Execute_direct_retry [THEN conjunct1]
    by (simp add: ToLower_def isASCII_def toLowerChar_def TrimSpace_eval HasPrefix_def)
  from example_execute_none sb' a example_execute_auth nsb' b m1 m2 m3 m4 m5 m6 m7 show ?thesis
    by (intro conjI)
qed

section \<open>Facts about client-key authentication\<close>

lemma parseAny_as_string:
  "parseAnyEntries p kvs out
     = parseStringEntries p (map (\<lambda>(key, valAny). (key, toString valAny)) kvs) out"
  by (induction p kvs out rule: parseAnyEntries.induct) (auto simp: Let_def split: option.splits)

lemma parseExpiryMap_entries:
  "parseExpiryMap p (Some c) =
     (if parseStringEntries p (expiryEntries c) [] = [] then None
      else Some (parseStringEntries p (expiryEntries c) []))"
  by (auto simp: parseExpiryMap_def expiryEntries_def Let_def parseAny_as_string
      split: option.splits any.splits)

lemma entries_keep:
  "map_of out k \<noteq> None \<Longrightarrow> map_of (parseStringEntries p kvs out) k \<noteq> None"
  by (induction p kvs out rule: parseStringEntries.induct) (auto simp: Let_def split: option.splits)

lemma entries_some:
  "(k', v) \<in> set kvs \<Longrightarrow> TrimSpace k' = k \<Longrightarrow> k \<noteq> [] \<Longrightarrow> TrimSpace v \<noteq> [] \<Longrightarrow>
   p (TrimSpace v) \<noteq> None \<Longrightarrow> map_of (parseStringEntries p kvs out) k \<noteq> None"
proof (induction p kvs out rule: parseStringEntries.induct)
  case (1 p out)
  then show ?case by simp
next
  case (2 p key val rest out)
  note prems = "2.prems"
  show ?case
  proof (cases "(k', v) = (key, val)")
    case True
    with prems obtain ts where ts: "p (TrimSpace val) = Some ts" by auto
    have "map_of ((TrimSpace key, ts) # out) k \<noteq> None" using True prems(2) by simp
    then have "map_of (parseStringEntries p rest ((TrimSpace key, ts) # out)) k \<noteq> None"
      by (rule entries_keep)
    with True prems ts show ?thesis by (simp add: Let_def)
  next
    case False
    with prems(1) have "(k', v) \<in> set rest" by auto
    with "2.IH" prems(2-) show ?thesis by (auto simp: Let_def split: option.splits)
  qed
qed

lemma entries_all:
  "(\<forall>(k', v) \<in> set kvs. TrimSpace k' = k \<longrightarrow> TrimSpace v \<noteq> [] \<longrightarrow>
       (\<forall>ts. p (TrimSpace v) = Some ts \<longrightarrow> R ts)) \<Longrightarrow>
   (\<forall>ts. map_of out k = Some ts \<longrightarrow> R ts) \<Longrightarrow>
   map_of (parseStringEntries p kvs out) k = Some ts \<Longrightarrow> R ts"
  by (induction p kvs out rule: parseStringEntries.induct)
     (auto simp: Let_def split: option.splits if_splits)

lemma candidates_first:
  "find (\<lambda>(v, s). v \<noteq> [] \<and> v \<in> set (keys p)) cands = Some (k, src) \<Longrightarrow>
   authenticateCandidates dn p now cands =
     (if keyExpired p now k then Inl ErrExpiredCredential
      else Inr \<lparr>Provider = Identifier dn (Some p), Principal = k,
                ResultMetadata = [(''source'', src)]\<rparr>)"
proof (induction cands)
  case Nil
  then show ?case by simp
next
  case (Cons c cands)
  obtain val source where c: "c = (val, source)" by (cases c)
  show ?case
  proof (cases "val \<noteq> [] \<and> val \<in> set (keys p)")
    case True
    with Cons.prems c have "k = val" "src = source" by simp_all
    with True c show ?thesis by simp
  next
    case False
    with Cons.prems c have "find (\<lambda>(v, s). v \<noteq> [] \<and> v \<in> set (keys p)) cands = Some (k, src)"
      by simp
    from Cons.IH [OF this] False c show ?thesis by auto
  qed
qed

lemma find_candidate:
  assumes "find (\<lambda>(v, s). v \<noteq> [] \<and> v \<in> set ks) (requestCandidates L r) = Some (k, src)"
  shows "k \<noteq> []" "k \<in> set ks"
    "\<not> (hAuthorization r = [] \<and> hXGoogApiKey r = [] \<and> hXApiKey r = [] \<and> qKey r = []
        \<and> qAuthToken r = [])"
proof -
  from assms have m: "(k, src) \<in> set (requestCandidates L r)" and "k \<noteq> [] \<and> k \<in> set ks"
    by (auto simp: find_Some_iff in_set_conv_nth)
  then show "k \<noteq> []" "k \<in> set ks" by simp_all
  show "\<not> (hAuthorization r = [] \<and> hXGoogApiKey r = [] \<and> hXApiKey r = [] \<and> qKey r = []
        \<and> qAuthToken r = [])"
  proof
    assume "hAuthorization r = [] \<and> hXGoogApiKey r = [] \<and> hXApiKey r = [] \<and> qKey r = []
        \<and> qAuthToken r = []"
    with m have "k = []" by (auto simp: requestCandidates_def extractBearerToken_def)
    with \<open>k \<noteq> []\<close> show False by simp
  qed
qed

lemma Authenticate_first:
  assumes "find (\<lambda>(v, s). v \<noteq> [] \<and> v \<in> set (keys p)) (requestCandidates L r) = Some (k, src)"
  shows "Authenticate L dn (Some p) now r =
     (if keyExpired p now k then Inl ErrExpiredCredential
      else Inr \<lparr>Provider = Identifier dn (Some p), Principal = k,
                ResultMetadata = [(''source'', src)]\<rparr>)"
proof -
  from find_candidate(2) [OF assms] have "keys p \<noteq> []" by auto
  with find_candidate(3) [OF assms] candidates_first [OF assms, of dn now]
  show ?thesis by (simp add: Authenticate_def requestCandidates_def)
qed

lemma newProvider_keys:
  "(v \<noteq> [] \<and> v \<in> set (keys (newProvider dn parse cfg))) = (v \<noteq> [] \<and> v \<in> set (APIKeys cfg))"
  by (auto simp: newProvider_def)

lemma expired_entries:
  assumes "\<exists>(k', v) \<in> set (expiryEntries cfg). TrimSpace k' = k \<and> TrimSpace v \<noteq> []
              \<and> parse (TrimSpace v) \<noteq> None"
    and "\<forall>(k', v) \<in> set (expiryEntries cfg). TrimSpace k' = k \<longrightarrow> TrimSpace v \<noteq> [] \<longrightarrow>
            (\<forall>ts. parse (TrimSpace v) = Some ts \<longrightarrow> ts \<noteq> zeroTime \<and> ts \<le> now)"
    and "k \<noteq> []"
  shows "keyExpired (newProvider dn parse cfg) now k"
proof -
  let ?out = "parseStringEntries parse (expiryEntries cfg) []"
  from assms(1) obtain k' v where e: "(k', v) \<in> set (expiryEntries cfg)" "TrimSpace k' = k"
    "TrimSpace v \<noteq> []" "parse (TrimSpace v) \<noteq> None" by blast
  have "map_of ?out k \<noteq> None"
    using e(1) e(2) assms(3) e(3) e(4) by (rule entries_some [where p = parse])
  then obtain ts where ts: "map_of ?out k = Some ts" by auto
  then have ne: "?out \<noteq> []" by auto
  have "ts \<noteq> zeroTime \<and> ts \<le> now"
    using assms(2) _ ts
    by (rule entries_all [where R = "\<lambda>ts. ts \<noteq> zeroTime \<and> ts \<le> now" and p = parse]) simp
  with ts ne show ?thesis
    by (simp add: keyExpired_def newProvider_def parseExpiryMap_entries)
qed

lemma unexpired_entries:
  assumes "\<forall>(k', v) \<in> set (expiryEntries cfg). TrimSpace k' = k \<longrightarrow> TrimSpace v \<noteq> [] \<longrightarrow>
            (\<forall>ts. parse (TrimSpace v) = Some ts \<longrightarrow> ts = zeroTime \<or> now < ts)"
  shows "\<not> keyExpired (newProvider dn parse cfg) now k"
proof
  let ?out = "parseStringEntries parse (expiryEntries cfg) []"
  assume "keyExpired (newProvider dn parse cfg) now k"
  then obtain ts where ts: "map_of ?out k = Some ts" "ts \<noteq> zeroTime" "\<not> now < ts"
    by (auto simp: keyExpired_def newProvider_def parseExpiryMap_entries
        split: option.splits if_splits)
  have "ts = zeroTime \<or> now < ts"
    using assms _ ts(1)
    by (rule entries_all [where R = "\<lambda>ts. ts = zeroTime \<or> now < ts" and p = parse]) simp
  with ts show False by simp
qed

lemmas access_eval =
  Authenticate_def newProvider_def parseExpiryMap_def keyExpired_def Identifier_def
  extractBearerToken_def requestCandidates_def expiryEntries_def toString_def exampleAccess_def
  exampleParse3339_def bearerRequest_def ToLower_def isASCII_def toLowerChar_def TrimSpace_eval
  zeroTime_def Second_def Let_def

text \<open>
  C10 as the claim states it, at two concrete inputs. The request presents the configured
  key \<open>key-zero\<close>, whose expiry entry is the RFC 3339 timestamp \<open>0001-01-01T00:00:00Z\<close>:
  that instant is not after the current time, and the request is authenticated. The request
  presents the configured key \<open>key-dup\<close>, for which the configuration holds two entries
  whose names differ in white space only, the first with a timestamp in 1970 and the second
  with one in 2999: the configuration holds a timestamp for the key that is not after the
  current time, the second entry replaces the first in the expiry map, and the request is
  authenticated.
\<close>

theorem zero_expiry_counterexample:
  "find (\<lambda>(v, s). v \<noteq> [] \<and> v \<in> set (APIKeys exampleAccess))
     (requestCandidates exampleLib (bearerRequest ''key-zero''))
     = Some (''key-zero'', ''authorization'')
   \<and> (''key-zero'', ''0001-01-01T00:00:00Z'') \<in> set (expiryEntries exampleAccess)
   \<and> exampleParse3339 ''0001-01-01T00:00:00Z'' = Some (- 62135596800000000000)
   \<and> \<not> (1700000000000000000 :: int) < - 62135596800000000000
   \<and> Authenticate exampleLib ''config-inline''
        (Some (newProvider ''config-inline'' exampleParse3339 exampleAccess)) 1700000000000000000
        (bearerRequest ''key-zero'')
       = Inr \<lparr>Provider = ''config'', Principal = ''key-zero'',
               ResultMetadata = [(''source'', ''authorization'')]\<rparr>
   \<and> find (\<lambda>(v, s). v \<noteq> [] \<and> v \<in> set (APIKeys exampleAccess))
        (requestCandidates exampleLib (bearerRequest ''key-dup''))
       = Some (''key-dup'', ''authorization'')
   \<and> ('' key-dup '', ''1970-01-01T00:00:00Z'') \<in> set (expiryEntries exampleAccess)
   \<and> TrimSpace '' key-dup '' = ''key-dup''
   \<and> exampleParse3339 ''1970-01-01T00:00:00Z'' = Some 0
   \<and> (0 :: int) \<noteq> zeroTime \<and> \<not> (1700000000000000000 :: int) < 0
   \<and> Authenticate exampleLib ''config-inline''
        (Some (newProvider ''config-inline'' exampleParse3339 exampleAccess)) 1700000000000000000
        (bearerRequest ''key-dup'')
       = Inr \<lparr>Provider = ''config'', Principal = ''key-dup'',
               ResultMetadata = [(''source'', ''authorization'')]\<rparr>"
  by (simp add: access_eval)

text \<open>
  C10, amended. Let \<open>k\<close> be the key the request presents: the first of its five candidate
  values that is not empty and is a configured key. The entries of the expiry configuration
  for \<open>k\<close> are those whose name, trimmed, is \<open>k\<close>. If some entry for \<open>k\<close> has a value that
  parses as RFC 3339, and every entry for \<open>k\<close> that parses gives a timestamp that is not the
  zero time and is not after \<open>now\<close>, \<open>Authenticate\<close> rejects the request with the
  expired-credential error. If every entry for \<open>k\<close> is blank, does not parse, is the zero
  time or is after \<open>now\<close> (in particular when there is no entry), the request is
  authenticated as \<open>k\<close>, exactly as with no expiry configuration at all.
\<close>

theorem Authenticate_expiry:
  "find (\<lambda>(v, s). v \<noteq> [] \<and> v \<in> set (APIKeys cfg)) (requestCandidates L r) = Some (k, src)
   \<longrightarrow>
     ((\<exists>(k', v) \<in> set (expiryEntries cfg). TrimSpace k' = k \<and> TrimSpace v \<noteq> []
           \<and> parse (TrimSpace v) \<noteq> None)
        \<and> (\<forall>(k', v) \<in> set (expiryEntries cfg). TrimSpace k' = k \<longrightarrow> TrimSpace v \<noteq> [] \<longrightarrow>
              (\<forall>ts. parse (TrimSpace v) = Some ts \<longrightarrow> ts \<noteq> zeroTime \<and> ts \<le> now))
      \<longrightarrow> Authenticate L dn (Some (newProvider dn parse cfg)) now r = Inl ErrExpiredCredential)
     \<and> ((\<forall>(k', v) \<in> set (expiryEntries cfg). TrimSpace k' = k \<longrightarrow> TrimSpace v \<noteq> [] \<longrightarrow>
              (\<forall>ts. parse (TrimSpace v) = Some ts \<longrightarrow> ts = zeroTime \<or> now < ts))
      \<longrightarrow> Authenticate L dn (Some (newProvider dn parse cfg)) now r
            = Inr \<lparr>Provider = (if Name cfg = [] then dn else Name cfg), Principal = k,
                    ResultMetadata = [(''source'', src)]\<rparr>
          \<and> Authenticate L dn (Some (newProvider dn parse cfg)) now r
            = Authenticate L dn (Some ((newProvider dn parse cfg)\<lparr>expiresAt := None\<rparr>)) now r)"
proof (intro impI conjI)
  assume f: "find (\<lambda>(v, s). v \<noteq> [] \<and> v \<in> set (APIKeys cfg)) (requestCandidates L r) = Some (k, src)"
  let ?p = "newProvider dn parse cfg"
  have fp: "find (\<lambda>(v, s). v \<noteq> [] \<and> v \<in> set (keys ?p)) (requestCandidates L r) = Some (k, src)"
    using f by (simp add: newProvider_keys)
  have fq: "find (\<lambda>(v, s). v \<noteq> [] \<and> v \<in> set (keys (?p\<lparr>expiresAt := None\<rparr>)))
              (requestCandidates L r) = Some (k, src)"
    using fp by simp
  have id: "Identifier dn (Some ?p) = (if Name cfg = [] then dn else Name cfg)"
    "Identifier dn (Some (?p\<lparr>expiresAt := None\<rparr>)) = (if Name cfg = [] then dn else Name cfg)"
    by (simp_all add: Identifier_def newProvider_def)
  have kne: "k \<noteq> []" by (rule find_candidate(1) [OF f])
  {
    assume "(\<exists>(k', v) \<in> set (expiryEntries cfg). TrimSpace k' = k \<and> TrimSpace v \<noteq> []
           \<and> parse (TrimSpace v) \<noteq> None)
        \<and> (\<forall>(k', v) \<in> set (expiryEntries cfg). TrimSpace k' = k \<longrightarrow> TrimSpace v \<noteq> [] \<longrightarrow>
              (\<forall>ts. parse (TrimSpace v) = Some ts \<longrightarrow> ts \<noteq> zeroTime \<and> ts \<le> now))"
    then have "keyExpired ?p now k"
      using expired_entries [of cfg k parse now dn] kne by blast
    then show "Authenticate L dn (Some ?p) now r = Inl ErrExpiredCredential"
      by (simp add: Authenticate_first [OF fp])
  }
  {
    assume "\<forall>(k', v) \<in> set (expiryEntries cfg). TrimSpace k' = k \<longrightarrow> TrimSpace v \<noteq> [] \<longrightarrow>
              (\<forall>ts. parse (TrimSpace v) = Some ts \<longrightarrow> ts = zeroTime \<or> now < ts)"
    then have ne: "\<not> keyExpired ?p now k" by (rule unexpired_entries)
    then show a: "Authenticate L dn (Some ?p) now r
            = Inr \<lparr>Provider = (if Name cfg = [] then dn else Name cfg), Principal = k,
                    ResultMetadata = [(''source'', src)]\<rparr>"
      by (simp add: Authenticate_first [OF fp] id)
    have "\<not> keyExpired (?p\<lparr>expiresAt := None\<rparr>) now k" by (simp add: keyExpired_def)
    then have "Authenticate L dn (Some (?p\<lparr>expiresAt := None\<rparr>)) now r
            = Inr \<lparr>Provider = (if Name cfg = [] then dn else Name cfg), Principal = k,
                    ResultMetadata = [(''source'', src)]\<rparr>"
      by (simp add: Authenticate_first [OF fq] id)
    with a show "Authenticate L dn (Some ?p) now r
            = Authenticate L dn (Some (?p\<lparr>expiresAt := None\<rparr>)) now r"
      by simp
  }
qed

theorem Authenticate_expiry_witness:
  "Authenticate exampleLib ''config-inline''
     (Some (newProvider ''config-inline'' exampleParse3339 exampleAccess)) 1700000000000000000
     (bearerRequest ''key-old'') = Inl ErrExpiredCredential
   \<and> Authenticate exampleLib ''config-inline''
       (Some (newProvider ''config-inline'' exampleParse3339 exampleAccess)) 1700000000000000000
       (bearerRequest ''key-odd'')
     = Inr \<lparr>Provider = ''config'', Principal = ''key-odd'',
             ResultMetadata = [(''source'', ''authorization'')]\<rparr>
   \<and> Authenticate exampleLib ''config-inline''
       (Some (newProvider ''config-inline'' exampleParse3339 exampleAccess)) 1700000000000000000
       (bearerRequest ''key-free'')
     = Inr \<lparr>Provider = ''config'', Principal = ''key-free'',
             ResultMetadata = [(''source'', ''authorization'')]\<rparr>"
proof -
  have en: "expiryEntries exampleAccess
      = [('' key-old '', ''1970-01-01T00:00:00Z''), (''key-zero'', ''0001-01-01T00:00:00Z''),
         (''key-odd'', ''next week''), ('' key-dup '', ''1970-01-01T00:00:00Z''),
         (''key-dup'', ''2999-01-01T00:00:00Z'')]"
    by (simp add: expiryEntries_def exampleAccess_def toString_def)
  have tr: "TrimSpace '' key-old '' = ''key-old''" "TrimSpace ''key-zero'' = ''key-zero''"
    "TrimSpace ''key-odd'' = ''key-odd''"
    "TrimSpace ''1970-01-01T00:00:00Z'' = ''1970-01-01T00:00:00Z''"
    "TrimSpace ''0001-01-01T00:00:00Z'' = ''0001-01-01T00:00:00Z''"
    "TrimSpace ''next week'' = ''next week''"
    "TrimSpace '' key-dup '' = ''key-dup''" "TrimSpace ''key-dup'' = ''key-dup''"
    "TrimSpace ''2999-01-01T00:00:00Z'' = ''2999-01-01T00:00:00Z''"
    by (simp_all add: TrimSpace_eval)
  have f: "find (\<lambda>(v, s). v \<noteq> [] \<and> v \<in> set (APIKeys exampleAccess))
             (requestCandidates exampleLib (bearerRequest ''key-old'')) = Some (''key-old'', ''authorization'')"
    "find (\<lambda>(v, s). v \<noteq> [] \<and> v \<in> set (APIKeys exampleAccess))
             (requestCandidates exampleLib (bearerRequest ''key-odd'')) = Some (''key-odd'', ''authorization'')"
    "find (\<lambda>(v, s). v \<noteq> [] \<and> v \<in> set (APIKeys exampleAccess))
             (requestCandidates exampleLib (bearerRequest ''key-free''))
       = Some (''key-free'', ''authorization'')"
    by (simp_all add: requestCandidates_def bearerRequest_def extractBearerToken_def
        exampleAccess_def ToLower_def isASCII_def toLowerChar_def TrimSpace_eval)
  have h1: "(\<exists>(k', v) \<in> set (expiryEntries exampleAccess). TrimSpace k' = ''key-old''
           \<and> TrimSpace v \<noteq> [] \<and> exampleParse3339 (TrimSpace v) \<noteq> None)
        \<and> (\<forall>(k', v) \<in> set (expiryEntries exampleAccess). TrimSpace k' = ''key-old'' \<longrightarrow>
              TrimSpace v \<noteq> [] \<longrightarrow>
              (\<forall>ts. exampleParse3339 (TrimSpace v) = Some ts \<longrightarrow>
                  ts \<noteq> zeroTime \<and> ts \<le> 1700000000000000000))"
    by (simp add: en tr exampleParse3339_def zeroTime_def Second_def)
  have h2: "\<forall>(k', v) \<in> set (expiryEntries exampleAccess). TrimSpace k' = ''key-odd'' \<longrightarrow>
              TrimSpace v \<noteq> [] \<longrightarrow>
              (\<forall>ts. exampleParse3339 (TrimSpace v) = Some ts \<longrightarrow>
                  ts = zeroTime \<or> 1700000000000000000 < ts)"
    by (simp add: en tr exampleParse3339_def)
  have h3: "\<forall>(k', v) \<in> set (expiryEntries exampleAccess). TrimSpace k' = ''key-free'' \<longrightarrow>
              TrimSpace v \<noteq> [] \<longrightarrow>
              (\<forall>ts. exampleParse3339 (TrimSpace v) = Some ts \<longrightarrow>
                  ts = zeroTime \<or> 1700000000000000000 < ts)"
    by (simp add: en tr)
  note a = Authenticate_expiry [where L = exampleLib and dn = "''config-inline''"
        and now = 1700000000000000000,
      THEN mp, OF f(1), THEN conjunct1, THEN mp, OF h1]
  note b = Authenticate_expiry [where L = exampleLib and dn = "''config-inline''"
        and now = 1700000000000000000,
      THEN mp, OF f(2), THEN conjunct2, THEN mp, OF h2, THEN conjunct1]
  note c = Authenticate_expiry [where L = exampleLib and dn = "''config-inline''"
        and now = 1700000000000000000,
      THEN mp, OF f(3), THEN conjunct2, THEN mp, OF h3, THEN conjunct1]
  have n: "Name exampleAccess = ''config''" by (simp add: exampleAccess_def)
  from a b c show ?thesis by (simp add: n)
qed

end
